theory Spec2Isabelle
  imports Main "HOL-Library.List_Lexorder" "HOL-Library.Char_ord"
begin

section \<open>Data model (shared/schema.ts)\<close>

text \<open>
  Rows of the PostgreSQL tables are records; a table is the list of its rows in insertion
  order. Primary keys (\<open>gen_random_uuid()\<close> in the schema) are modelled by natural numbers
  drawn from a counter kept in the store. Columns \<open>createdAt\<close> and \<open>updatedAt\<close>,
  \<open>lastServiceDate\<close> and the columns no modelled operation reads (a barber's specialty
  and experience, the users table) are left out. Monetary columns are \<open>decimal(10,2)\<close>:
  an amount is an integer number of cents (the controllers add two such amounts with
  \<open>parseFloat\<close> and store the sum back into a \<open>decimal(10,2)\<close> column, which rounds it
  to the exact sum of cents). Instants are milliseconds since the epoch. Dates and times of
  day are the text columns of the schema (\<open>YYYY-MM-DD\<close>, \<open>HH:MM\<close>), compared as text.
  The audit log (\<open>logIfEnabled\<close>, \<open>logUserAction\<close>) swallows its own failures and is
  read by no modelled operation; it is not part of the store below. Every operation is a
  function from the store before to a result and the store after: operations run one after
  the other, and a database outage is not modelled. The clock reading and the host's time
  zone are parameters of the operations that use them.
\<close>

type_synonym ident = nat
type_synonym money = int
type_synonym instant = int

datatype role = SUPER_ADMIN | ADMIN | BARBEIRO | CLIENTE

datatype appointment_status = SCHEDULED | CONFIRMED | IN_PROGRESS | COMPLETED | CANCELLED

datatype voucher_status = ACTIVE | USED | EXPIRED

text \<open>The authenticated caller, \<open>req.user\<close> of \<open>AuthenticatedRequest\<close>.\<close>

record auth_user =
  user_id :: ident
  user_role :: role

record barbeiro =
  barbeiro_id :: ident
  barbeiro_userId :: ident
  isAvailable :: bool

record appointment =
  appt_id :: ident
  clientId :: ident
  barberId :: ident
  serviceType :: string
  appointmentDate :: string
  appointmentTime :: string
  appt_status :: appointment_status
  appt_notes :: "string option"
  price :: "money option"

record client_service_count =
  csc_userId :: ident
  completedServices :: int
  totalSpent :: money

record voucher_config =
  vc_id :: ident
  servicesRequired :: int
  discountPercentage :: int
  validityDays :: int
  description :: string
  isActive :: bool

record voucher =
  voucher_id :: ident
  voucher_userId :: ident
  configId :: ident
  code :: string
  voucher_status :: voucher_status
  expiryDate :: instant
  usedAt :: "instant option"
  usedAppointmentId :: "ident option"

record day_hours =
  dh_start :: string
  dh_end :: string

record business_hours =
  monday :: "day_hours option"
  tuesday :: "day_hours option"
  wednesday :: "day_hours option"
  thursday :: "day_hours option"
  friday :: "day_hours option"
  saturday :: "day_hours option"
  sunday :: "day_hours option"

text \<open>
  The store. \<open>businessHoursConfig\<close> is the value of the \<open>business_config\<close> row with key
  \<open>BUSINESS_HOURS\<close>, \<open>None\<close> when there is no such row.
\<close>

record store =
  barbeiros :: "barbeiro list"
  appointments :: "appointment list"
  clientServiceCounts :: "client_service_count list"
  voucherConfigs :: "voucher_config list"
  vouchers :: "voucher list"
  businessHoursConfig :: "business_hours option"
  nextId :: nat

text \<open>The \<open>code\<close> field of the JSON error bodies the controllers send.\<close>

datatype error =
    NOT_AUTHENTICATED
  | INSUFFICIENT_PERMISSIONS
  | BARBEIRO_NOT_FOUND
  | BARBEIRO_UNAVAILABLE
  | APPOINTMENT_NOT_FOUND
  | UPDATE_PERMISSION_DENIED
  | UPDATE_ERROR
  | DELETE_PERMISSION_DENIED
  | DELETE_ERROR
  | VOUCHER_NOT_FOUND
  | VOUCHER_NOT_OWNED
  | VOUCHER_INACTIVE
  | VOUCHER_EXPIRED
  | APPOINTMENT_NOT_OWNED
  | MISSING_DATE
  | BUSINESS_HOURS_NOT_CONFIGURED
  | INTERNAL_ERROR

text \<open>The HTTP status sent with each error code.\<close>

fun http_status :: "error \<Rightarrow> nat" where
  "http_status NOT_AUTHENTICATED = 401"
| "http_status INSUFFICIENT_PERMISSIONS = 403"
| "http_status BARBEIRO_NOT_FOUND = 404"
| "http_status BARBEIRO_UNAVAILABLE = 400"
| "http_status APPOINTMENT_NOT_FOUND = 404"
| "http_status UPDATE_PERMISSION_DENIED = 403"
| "http_status UPDATE_ERROR = 500"
| "http_status DELETE_PERMISSION_DENIED = 403"
| "http_status DELETE_ERROR = 500"
| "http_status VOUCHER_NOT_FOUND = 404"
| "http_status VOUCHER_NOT_OWNED = 403"
| "http_status VOUCHER_INACTIVE = 400"
| "http_status VOUCHER_EXPIRED = 400"
| "http_status APPOINTMENT_NOT_OWNED = 403"
| "http_status MISSING_DATE = 400"
| "http_status BUSINESS_HOURS_NOT_CONFIGURED = 500"
| "http_status INTERNAL_ERROR = 500"

section \<open>Storage layer (DatabaseStorage)\<close>

definition getBarbeiro :: "store \<Rightarrow> ident \<Rightarrow> barbeiro option" where
  "getBarbeiro s i = find (\<lambda>b. barbeiro_id b = i) (barbeiros s)"

definition getBarbeiroByUserId :: "store \<Rightarrow> ident \<Rightarrow> barbeiro option" where
  "getBarbeiroByUserId s u = find (\<lambda>b. barbeiro_userId b = u) (barbeiros s)"

definition getAppointment :: "store \<Rightarrow> ident \<Rightarrow> appointment option" where
  "getAppointment s i = find (\<lambda>a. appt_id a = i) (appointments s)"

text \<open>
  \<open>storage.createAppointment\<close>: a plain \<open>INSERT ... RETURNING\<close>. The table has no
  uniqueness constraint besides its primary key, so the insert always succeeds.
\<close>

record insert_appointment =
  ia_clientId :: ident
  ia_barberId :: ident
  ia_serviceType :: string
  ia_appointmentDate :: string
  ia_appointmentTime :: string
  ia_notes :: "string option"
  ia_price :: "money option"
  ia_status :: appointment_status

definition storage_createAppointment :: "insert_appointment \<Rightarrow> store \<Rightarrow> appointment \<times> store" where
  "storage_createAppointment d s =
     (let a = \<lparr> appt_id = nextId s, clientId = ia_clientId d, barberId = ia_barberId d,
                 serviceType = ia_serviceType d, appointmentDate = ia_appointmentDate d,
                 appointmentTime = ia_appointmentTime d, appt_status = ia_status d,
                 appt_notes = ia_notes d, price = ia_price d \<rparr>
      in (a, s\<lparr> appointments := appointments s @ [a], nextId := Suc (nextId s) \<rparr>))"

text \<open>
  \<open>storage.updateAppointment(id, updates)\<close>: \<open>UPDATE ... SET updates WHERE id = ...
  RETURNING\<close>. Of \<open>Partial<InsertAppointment>\<close> the callers set only status, notes and
  price; a field left \<open>undefined\<close> keeps the column. The result is the first returned row,
  \<open>None\<close> (undefined) when no row has the id.
\<close>

record appointment_updates =
  upd_status :: "appointment_status option"
  upd_notes :: "string option"
  upd_price :: "money option"

definition apply_updates :: "appointment_updates \<Rightarrow> appointment \<Rightarrow> appointment" where
  "apply_updates u a =
     a\<lparr> appt_status := (case upd_status u of None \<Rightarrow> appt_status a | Some st \<Rightarrow> st),
        appt_notes := (case upd_notes u of None \<Rightarrow> appt_notes a | Some n \<Rightarrow> Some n),
        price := (case upd_price u of None \<Rightarrow> price a | Some p \<Rightarrow> Some p) \<rparr>"

definition storage_updateAppointment ::
  "ident \<Rightarrow> appointment_updates \<Rightarrow> store \<Rightarrow> appointment option \<times> store" where
  "storage_updateAppointment i u s =
     (let rows = map (\<lambda>a. if appt_id a = i then apply_updates u a else a) (appointments s)
      in (find (\<lambda>a. appt_id a = i) rows, s\<lparr> appointments := rows \<rparr>))"

text \<open>
  \<open>storage.deleteAppointment(id)\<close>: \<open>DELETE ... WHERE id = ...\<close>, returning whether a row
  was deleted. \<open>vouchers.usedAppointmentId\<close> references \<open>appointments.id\<close> without a
  cascade, so deleting an appointment that a redeemed voucher points to is rejected by the
  database and the call throws: \<open>None\<close>.
\<close>

definition storage_deleteAppointment :: "ident \<Rightarrow> store \<Rightarrow> (bool \<times> store) option" where
  "storage_deleteAppointment i s =
     (if list_ex (\<lambda>a. appt_id a = i) (appointments s)
         \<and> list_ex (\<lambda>v. usedAppointmentId v = Some i) (vouchers s)
      then None
      else Some (list_ex (\<lambda>a. appt_id a = i) (appointments s),
                 s\<lparr> appointments := filter (\<lambda>a. appt_id a \<noteq> i) (appointments s) \<rparr>))"

text \<open>
  \<open>storage.getOldPendingAppointments()\<close>: the SCHEDULED appointments whose date text is
  below today's date text (\<open>new Date().toISOString().split('T')[0]\<close>, here the
  parameter \<open>today\<close>).
\<close>

definition getOldPendingAppointments :: "string \<Rightarrow> store \<Rightarrow> appointment list" where
  "getOldPendingAppointments today s =
     filter (\<lambda>a. appt_status a = SCHEDULED \<and> appointmentDate a < today) (appointments s)"

text \<open>
  \<open>storage.getAppointmentsByDateRange(startDate, endDate)\<close>. The \<open>ORDER BY\<close> of the query
  is not modelled: the modelled caller uses the rows only for membership of their times.
\<close>

definition getAppointmentsByDateRange :: "store \<Rightarrow> string \<Rightarrow> string \<Rightarrow> appointment list" where
  "getAppointmentsByDateRange s startDate endDate =
     filter (\<lambda>a. startDate \<le> appointmentDate a \<and> appointmentDate a \<le> endDate) (appointments s)"

subsection \<open>Client service counts\<close>

definition getClientServiceCount :: "store \<Rightarrow> ident \<Rightarrow> client_service_count option" where
  "getClientServiceCount s u = find (\<lambda>c. csc_userId c = u) (clientServiceCounts s)"

definition updateClientServiceCount :: "ident \<Rightarrow> int \<Rightarrow> money \<Rightarrow> store \<Rightarrow> store" where
  "updateClientServiceCount u n t s =
     (case getClientServiceCount s u of
        Some existing \<Rightarrow>
          s\<lparr> clientServiceCounts :=
               map (\<lambda>c. if csc_userId c = u then c\<lparr> completedServices := n, totalSpent := t \<rparr> else c)
                 (clientServiceCounts s) \<rparr>
      | None \<Rightarrow>
          s\<lparr> clientServiceCounts :=
               clientServiceCounts s @ [\<lparr> csc_userId = u, completedServices = n, totalSpent = t \<rparr>] \<rparr>)"

subsection \<open>Voucher configurations and vouchers\<close>

text \<open>
  \<open>storage.getActiveVoucherConfig()\<close>: \<open>WHERE isActive ORDER BY createdAt DESC LIMIT 1\<close>,
  the most recently inserted active configuration.
\<close>

definition getActiveVoucherConfig :: "store \<Rightarrow> voucher_config option" where
  "getActiveVoucherConfig s = find isActive (rev (voucherConfigs s))"

definition updateVoucherConfig :: "ident \<Rightarrow> (voucher_config \<Rightarrow> voucher_config) \<Rightarrow> store \<Rightarrow> store" where
  "updateVoucherConfig i f s =
     s\<lparr> voucherConfigs := map (\<lambda>c. if vc_id c = i then f c else c) (voucherConfigs s) \<rparr>"

record insert_voucher_config =
  ivc_servicesRequired :: int
  ivc_discountPercentage :: int
  ivc_validityDays :: int
  ivc_description :: string
  ivc_isActive :: bool

definition createVoucherConfig :: "insert_voucher_config \<Rightarrow> store \<Rightarrow> voucher_config \<times> store" where
  "createVoucherConfig d s =
     (let c = \<lparr> vc_id = nextId s, servicesRequired = ivc_servicesRequired d,
                 discountPercentage = ivc_discountPercentage d,
                 validityDays = ivc_validityDays d, description = ivc_description d,
                 isActive = ivc_isActive d \<rparr>
      in (c, s\<lparr> voucherConfigs := voucherConfigs s @ [c], nextId := Suc (nextId s) \<rparr>))"

text \<open>
  \<open>storage.createVoucher\<close>: the column \<open>vouchers.code\<close> is declared \<open>unique()\<close>, so
  the insert throws when a voucher with the same code is already stored: \<open>None\<close>.
\<close>

record insert_voucher =
  iv_userId :: ident
  iv_configId :: ident
  iv_code :: string
  iv_status :: voucher_status
  iv_expiryDate :: instant
  iv_usedAt :: "instant option"
  iv_usedAppointmentId :: "ident option"

definition createVoucher :: "insert_voucher \<Rightarrow> store \<Rightarrow> (voucher \<times> store) option" where
  "createVoucher d s =
     (if list_ex (\<lambda>v. code v = iv_code d) (vouchers s) then None
      else
        (let v = \<lparr> voucher_id = nextId s, voucher_userId = iv_userId d, configId = iv_configId d,
                   code = iv_code d, voucher_status = iv_status d,
                   expiryDate = iv_expiryDate d, usedAt = iv_usedAt d,
                   usedAppointmentId = iv_usedAppointmentId d \<rparr>
         in Some (v, s\<lparr> vouchers := vouchers s @ [v], nextId := Suc (nextId s) \<rparr>)))"

definition getVoucherByCode :: "store \<Rightarrow> string \<Rightarrow> voucher option" where
  "getVoucherByCode s c = find (\<lambda>v. code v = c) (vouchers s)"

text \<open>\<open>storage.getUserVouchers\<close>: newest first.\<close>

definition storage_getUserVouchers :: "store \<Rightarrow> ident \<Rightarrow> voucher list" where
  "storage_getUserVouchers s u = rev (filter (\<lambda>v. voucher_userId v = u) (vouchers s))"

definition updateVoucher :: "ident \<Rightarrow> (voucher \<Rightarrow> voucher) \<Rightarrow> store \<Rightarrow> voucher option \<times> store" where
  "updateVoucher i f s =
     (let rows = map (\<lambda>v. if voucher_id v = i then f v else v) (vouchers s)
      in (find (\<lambda>v. voucher_id v = i) rows, s\<lparr> vouchers := rows \<rparr>))"

section \<open>Appointment controller: createAppointment\<close>

text \<open>
  The request body of \<open>POST /api/appointments\<close> (\<open>CreateAppointmentData\<close>). A price
  in the body is a decimal string, which is truthy, so \<open>price ? String(price) : null\<close>
  stores the given price, and null when there is none.
\<close>

record create_appointment_data =
  cad_barberId :: ident
  cad_serviceType :: string
  cad_appointmentDate :: string
  cad_appointmentTime :: string
  cad_notes :: "string option"
  cad_price :: "money option"

definition createAppointment ::
  "auth_user option \<Rightarrow> create_appointment_data \<Rightarrow> store \<Rightarrow> (error + appointment) \<times> store" where
  "createAppointment req_user body s =
     (case req_user of
        None \<Rightarrow> (Inl NOT_AUTHENTICATED, s)
      | Some u \<Rightarrow>
          (case getBarbeiro s (cad_barberId body) of
             None \<Rightarrow> (Inl BARBEIRO_NOT_FOUND, s)
           | Some b \<Rightarrow>
               if \<not> isAvailable b then (Inl BARBEIRO_UNAVAILABLE, s)
               else
                 (let appointmentData =
                        \<lparr> ia_clientId = user_id u, ia_barberId = cad_barberId body,
                          ia_serviceType = cad_serviceType body,
                          ia_appointmentDate = cad_appointmentDate body,
                          ia_appointmentTime = cad_appointmentTime body,
                          ia_notes = cad_notes body, ia_price = cad_price body,
                          ia_status = SCHEDULED \<rparr>;
                      (newAppointment, s') = storage_createAppointment appointmentData s
                  in (Inr newAppointment, s'))))"

section \<open>JavaScript helpers\<close>

text \<open>
  Decimal rendering of an integer (\<open>Number.prototype.toString\<close> on an integer whose
  magnitude is below \<open>2^53\<close>).
\<close>

definition digit_char :: "nat \<Rightarrow> char" where
  "digit_char d = ''0123456789'' ! (d mod 10)"

fun show_nat :: "nat \<Rightarrow> string" where
  "show_nat n = (if n < 10 then [digit_char n] else show_nat (n div 10) @ [digit_char (n mod 10)])"

declare show_nat.simps [simp del]

definition show_int :: "int \<Rightarrow> string" where
  "show_int i = (if i < 0 then CHR ''-'' # show_nat (nat (- i)) else show_nat (nat i))"

text \<open>\<open>String.prototype.padStart(n, '0')\<close>.\<close>

definition padStart :: "nat \<Rightarrow> string \<Rightarrow> string" where
  "padStart n str = replicate (n - length str) CHR ''0'' @ str"

text \<open>
  The remainder operator \<open>%\<close> on integers: the result has the sign of the dividend, and a
  zero divisor gives \<open>NaN\<close>, here \<open>None\<close>.
\<close>

definition js_rem :: "int \<Rightarrow> int \<Rightarrow> int option" where
  "js_rem a b = (if b = 0 then None else Some (sgn a * (\<bar>a\<bar> mod \<bar>b\<bar>)))"

text \<open>\<open>String.prototype.split\<close> on a one-character separator.\<close>

fun split_on :: "char \<Rightarrow> string \<Rightarrow> string list" where
  "split_on c [] = [[]]"
| "split_on c (x # xs) =
     (if x = c then [] # split_on c xs
      else (case split_on c xs of [] \<Rightarrow> [[x]] | p # ps \<Rightarrow> (x # p) # ps))"

subsection \<open>Number applied to a string\<close>

text \<open>
  The result of \<open>Number(str)\<close> is an integer of magnitude at most \<open>2^53\<close> (\<open>Num\<close>, exact
  in a double), or \<open>NaN\<close>, or a value this model does not compute (\<open>Beyond\<close>): a
  fraction, an exponent form, an infinity, an integer above \<open>2^53\<close>. A string with a
  non-ASCII byte is \<open>Beyond\<close> too, since it may carry Unicode white space.
  The grammar is that of StringNumericLiteral: white space around the literal is dropped
  and the empty literal is 0; a literal is a radix literal \<open>0x\<close>, \<open>0o\<close>, \<open>0b\<close> without
  sign, or an optional sign followed by \<open>Infinity\<close> or by a decimal literal (digits with an
  optional fraction part, or a fraction part alone, and an optional exponent); every other
  string is \<open>NaN\<close>.
\<close>

datatype js_number = Num int | NaN | Beyond

definition max_safe :: int where
  "max_safe = 9007199254740992"

definition safe_num :: "int \<Rightarrow> js_number" where
  "safe_num v = (if \<bar>v\<bar> \<le> max_safe then Num v else Beyond)"

definition digit_value :: "char \<Rightarrow> int option" where
  "digit_value = map_of
     [(CHR ''0'', 0), (CHR ''1'', 1), (CHR ''2'', 2), (CHR ''3'', 3), (CHR ''4'', 4),
      (CHR ''5'', 5), (CHR ''6'', 6), (CHR ''7'', 7), (CHR ''8'', 8), (CHR ''9'', 9),
      (CHR ''a'', 10), (CHR ''b'', 11), (CHR ''c'', 12), (CHR ''d'', 13), (CHR ''e'', 14),
      (CHR ''f'', 15), (CHR ''A'', 10), (CHR ''B'', 11), (CHR ''C'', 12), (CHR ''D'', 13),
      (CHR ''E'', 14), (CHR ''F'', 15)]"

text \<open>The value of a non-empty digit string in the given radix, \<open>None\<close> when it is not one.\<close>

fun radix_acc :: "int \<Rightarrow> int \<Rightarrow> string \<Rightarrow> int option" where
  "radix_acc b acc [] = Some acc"
| "radix_acc b acc (c # cs) =
     (case digit_value c of
        None \<Rightarrow> None
      | Some d \<Rightarrow> if d < b then radix_acc b (b * acc + d) cs else None)"

definition radix_value :: "int \<Rightarrow> string \<Rightarrow> int option" where
  "radix_value b str = (if str = [] then None else radix_acc b 0 str)"

definition is_space :: "char \<Rightarrow> bool" where
  "is_space c = (c \<in> set [CHR 0x09, CHR 0x0A, CHR 0x0B, CHR 0x0C, CHR 0x0D, CHR 0x20])"

definition trim :: "string \<Rightarrow> string" where
  "trim str = rev (dropWhile is_space (rev (dropWhile is_space str)))"

definition strip_sign :: "string \<Rightarrow> int \<times> string" where
  "strip_sign str =
     (case str of
        [] \<Rightarrow> (1, [])
      | c # cs \<Rightarrow>
          if c = CHR ''+'' then (1, cs) else if c = CHR ''-'' then (- 1, cs) else (1, str))"

definition not_exp_mark :: "char \<Rightarrow> bool" where
  "not_exp_mark c = (c \<noteq> CHR ''e'' \<and> c \<noteq> CHR ''E'')"

definition not_point :: "char \<Rightarrow> bool" where
  "not_point c = (c \<noteq> CHR ''.'')"

text \<open>
  An unsigned decimal literal: \<open>digits\<close>, \<open>digits.\<close>, \<open>digits.digits\<close> or \<open>.digits\<close>,
  then optionally \<open>e\<close> or \<open>E\<close>, an optional sign and digits.
\<close>

definition decimal_literal :: "string \<Rightarrow> bool" where
  "decimal_literal str =
     (let mantissa = takeWhile not_exp_mark str;
          exponent = dropWhile not_exp_mark str;
          whole = takeWhile not_point mantissa;
          fraction = dropWhile not_point mantissa
      in (exponent = [] \<or> radix_value 10 (snd (strip_sign (tl exponent))) \<noteq> None)
         \<and> (if fraction = [] then radix_value 10 whole \<noteq> None
            else (whole = [] \<or> radix_value 10 whole \<noteq> None)
                 \<and> (tl fraction = [] \<or> radix_value 10 (tl fraction) \<noteq> None)
                 \<and> (whole \<noteq> [] \<or> tl fraction \<noteq> [])))"

definition radix_literal :: "string \<Rightarrow> int option" where
  "radix_literal str =
     (case str of
        z # m # ds \<Rightarrow>
          if z \<noteq> CHR ''0'' then None
          else if m = CHR ''x'' \<or> m = CHR ''X'' then radix_value 16 ds
          else if m = CHR ''o'' \<or> m = CHR ''O'' then radix_value 8 ds
          else if m = CHR ''b'' \<or> m = CHR ''B'' then radix_value 2 ds
          else None
      | _ \<Rightarrow> None)"

definition jsNumber :: "string \<Rightarrow> js_number" where
  "jsNumber str =
     (if list_ex (\<lambda>c. 128 \<le> (of_char c :: nat)) str then Beyond
      else
        (let literal = trim str
         in if literal = [] then Num 0
            else
              (case radix_literal literal of
                 Some v \<Rightarrow> safe_num v
               | None \<Rightarrow>
                   (let (sign, unsigned) = strip_sign literal
                    in (case radix_value 10 unsigned of
                          Some v \<Rightarrow> safe_num (sign * v)
                        | None \<Rightarrow>
                            if unsigned = ''Infinity'' \<or> decimal_literal unsigned then Beyond
                            else NaN)))))"

text \<open>
  \<open>parseTime\<close>: \<open>const [hours, minutes] = timeString.split(':').map(Number); return hours
  * 60 + minutes\<close>. With fewer than two parts \<open>minutes\<close> is undefined and the sum is
  \<open>NaN\<close>; a \<open>NaN\<close> operand makes the sum \<open>NaN\<close> whatever the other one is.
\<close>

definition hours_minutes :: "js_number \<Rightarrow> js_number \<Rightarrow> js_number" where
  "hours_minutes h m =
     (if h = NaN \<or> m = NaN then NaN
      else (case (h, m) of
              (Num a, Num b) \<Rightarrow> safe_num (a * 60 + b)
            | _ \<Rightarrow> Beyond))"

definition parseTime :: "string \<Rightarrow> js_number" where
  "parseTime timeString =
     (case split_on CHR '':'' timeString of
        hours # minutes # rest \<Rightarrow> hours_minutes (jsNumber hours) (jsNumber minutes)
      | _ \<Rightarrow> NaN)"

text \<open>
  \<open>formatTime\<close>: \<open>Math.floor(minutes / 60)\<close> and \<open>minutes % 60\<close>, each rendered and padded
  to two characters.
\<close>

definition formatTime :: "int \<Rightarrow> string" where
  "formatTime minutes =
     padStart 2 (show_int (minutes div 60)) @ '':''
       @ padStart 2 (show_int (sgn minutes * (\<bar>minutes\<bar> mod 60)))"

text \<open>The loop of \<open>generateTimeSlots\<close>: \<open>while (current < end) { push; current += 30 }\<close>.\<close>

function slots_from :: "int \<Rightarrow> int \<Rightarrow> string list" where
  "slots_from current end = (if current < end then formatTime current # slots_from (current + 30) end else [])"
  by pat_completeness auto
termination
  by (relation "measure (\<lambda>(current, end). nat (end - current))") auto

declare slots_from.simps [simp del]

text \<open>
  \<open>generateTimeSlots\<close>. A comparison with \<open>NaN\<close> is false, so a \<open>NaN\<close> bound gives no
  slot; \<open>None\<close> marks bounds outside the model.
\<close>

definition generateTimeSlots :: "string \<Rightarrow> string \<Rightarrow> string list option" where
  "generateTimeSlots startTime endTime =
     (let start = parseTime startTime; end = parseTime endTime
      in if start = NaN \<or> end = NaN then Some []
         else (case (start, end) of
                 (Num a, Num b) \<Rightarrow> Some (slots_from a b)
               | _ \<Rightarrow> None))"

subsection \<open>Dates and the host's time zone\<close>

text \<open>
  The host's time zone: the offset from UTC in milliseconds in force at a UTC instant
  (\<open>LocalTime(t) = t + utc_offset t\<close>) and the offset by which a local time value is
  turned back into UTC (\<open>UTC(t) = t - local_offset t\<close>). Offsets are under a day.
\<close>

record zone =
  utc_offset :: "int \<Rightarrow> int"
  local_offset :: "int \<Rightarrow> int"

definition msPerDay :: int where
  "msPerDay = 86400000"

text \<open>Days from 1970-01-01 to a day of the proleptic Gregorian calendar.\<close>

definition days_from_civil :: "int \<Rightarrow> int \<Rightarrow> int \<Rightarrow> int" where
  "days_from_civil y m d =
     (let y' = (if m \<le> 2 then y - 1 else y);
          era = y' div 400;
          yoe = y' - era * 400;
          doy = (153 * (if m > 2 then m - 3 else m + 9) + 2) div 5 + d - 1;
          doe = yoe * 365 + yoe div 4 - yoe div 100 + doy
      in era * 146097 + doe - 719468)"

text \<open>
  \<open>new Date(str)\<close> for a string of the form the route admits, \<open>dddd-dd-dd\<close> (the query
  schema's \<open>/^\d{4}-\d{2}-\d{2}$/\<close>): a date-only form is read as UTC midnight; a month
  outside 1..12 or a day outside 1..31 gives an invalid date (\<open>NaN\<close>, the inner \<open>None\<close>),
  and a day beyond the month's length runs on into the next month. The outer \<open>None\<close>
  marks a string of another form, which this model does not cover.
\<close>

definition iso_fields :: "string \<Rightarrow> (int \<times> int \<times> int) option" where
  "iso_fields str =
     (if length str = 10 \<and> str ! 4 = CHR ''-'' \<and> str ! 7 = CHR ''-'' then
        (case (radix_value 10 (take 4 str), radix_value 10 (take 2 (drop 5 str)),
               radix_value 10 (drop 8 str)) of
           (Some y, Some m, Some d) \<Rightarrow> Some (y, m, d)
         | _ \<Rightarrow> None)
      else None)"

definition dateValue :: "string \<Rightarrow> int option option" where
  "dateValue str =
     (case iso_fields str of
        None \<Rightarrow> None
      | Some (y, m, d) \<Rightarrow>
          Some (if 1 \<le> m \<and> m \<le> 12 \<and> 1 \<le> d \<and> d \<le> 31
                then Some ((days_from_civil y m 1 + d - 1) * msPerDay)
                else None))"

text \<open>
  \<open>Date.prototype.getDay\<close>: the weekday, 0 for Sunday, of the local time of the instant.
\<close>

definition weekDay :: "zone \<Rightarrow> int \<Rightarrow> nat" where
  "weekDay z t = nat (((t + utc_offset z t) div msPerDay + 4) mod 7)"

definition getDay :: "zone \<Rightarrow> string \<Rightarrow> nat option option" where
  "getDay z str = map_option (map_option (weekDay z)) (dateValue str)"

text \<open>
  \<open>const d = new Date(); d.setDate(d.getDate() + n)\<close> at the instant \<open>now\<close>: \<open>n\<close> days
  are added to the local time and the result is turned back into UTC; a result beyond the
  range of time values (8.64e15 ms on either side of the epoch) is an invalid date, \<open>None\<close>.
\<close>

definition addDays :: "zone \<Rightarrow> int \<Rightarrow> int \<Rightarrow> int option" where
  "addDays z now n =
     (let local = now + utc_offset z now + n * msPerDay;
          u = local - local_offset z local
      in if \<bar>u\<bar> \<le> 8640000000000000 then Some u else None)"

definition utc_zone :: zone where
  "utc_zone = \<lparr> utc_offset = (\<lambda>t. 0), local_offset = (\<lambda>t. 0) \<rparr>"

text \<open>America/Sao_Paulo, three hours behind UTC throughout (no daylight saving since 2019).\<close>

definition sao_paulo :: zone where
  "sao_paulo = \<lparr> utc_offset = (\<lambda>t. - 10800000), local_offset = (\<lambda>t. - 10800000) \<rparr>"

section \<open>Appointment controller: updateAppointment\<close>

definition checkUpdatePermissions :: "store \<Rightarrow> auth_user \<Rightarrow> appointment \<Rightarrow> bool" where
  "checkUpdatePermissions s user appointment =
     (case user_role user of
        SUPER_ADMIN \<Rightarrow> True
      | ADMIN \<Rightarrow> True
      | BARBEIRO \<Rightarrow>
          (case getBarbeiroByUserId s (user_id user) of
             None \<Rightarrow> False
           | Some b \<Rightarrow> barbeiro_id b = barberId appointment)
      | CLIENTE \<Rightarrow> clientId appointment = user_id user \<and> appt_status appointment \<noteq> COMPLETED)"

text \<open>
  \<open>checkAndCreateVoucher(clientId, completedServices)\<close>. The clock reading \<open>now\<close>
  (\<open>Date.now()\<close>, milliseconds) gives the voucher code \<open>FIDELIDADE\<close> followed by its
  decimal digits; the expiry is \<open>new Date()\<close> moved on by
  \<open>setDate(getDate() + validityDays)\<close> in the host's time zone. The whole body is inside
  \<open>try/catch\<close>: when the expiry is an invalid date (its conversion for the insert throws)
  or the insert is rejected, the error is logged and the store stays as it was.
\<close>

definition voucherCode :: "nat \<Rightarrow> string" where
  "voucherCode now = ''FIDELIDADE'' @ show_nat now"

definition checkAndCreateVoucher :: "zone \<Rightarrow> nat \<Rightarrow> ident \<Rightarrow> int \<Rightarrow> store \<Rightarrow> store" where
  "checkAndCreateVoucher z now cid completed s =
     (case getActiveVoucherConfig s of
        None \<Rightarrow> s
      | Some config \<Rightarrow>
          if js_rem completed (servicesRequired config) = Some 0 then
            (case addDays z (int now) (validityDays config) of
               None \<Rightarrow> s
             | Some expiry \<Rightarrow>
                 (case createVoucher
                         \<lparr> iv_userId = cid, iv_configId = vc_id config,
                           iv_code = voucherCode now, iv_status = ACTIVE,
                           iv_expiryDate = expiry,
                           iv_usedAt = None, iv_usedAppointmentId = None \<rparr> s of
                    None \<Rightarrow> s
                  | Some (v, s') \<Rightarrow> s'))
          else s)"

text \<open>
  The ledger as the controller reads it: a client without a row counts as zero services
  and zero spend (\<open>clientServiceCount?.completedServices || 0\<close>,
  \<open>parseFloat(clientServiceCount?.totalSpent || '0')\<close>), and an appointment without a
  price as zero (\<open>parseFloat(existingAppointment.price || '0')\<close>).
\<close>

definition ledgerCount :: "store \<Rightarrow> ident \<Rightarrow> int" where
  "ledgerCount s c = (case getClientServiceCount s c of None \<Rightarrow> 0 | Some r \<Rightarrow> completedServices r)"

definition ledgerSpent :: "store \<Rightarrow> ident \<Rightarrow> money" where
  "ledgerSpent s c = (case getClientServiceCount s c of None \<Rightarrow> 0 | Some r \<Rightarrow> totalSpent r)"

definition amountOf :: "appointment \<Rightarrow> money" where
  "amountOf a = (case price a of None \<Rightarrow> 0 | Some p \<Rightarrow> p)"

text \<open>
  The ledger step of \<open>updateAppointment\<close> (the body of its
  \<open>if (updates.status === 'COMPLETED' && existingAppointment.status !== 'COMPLETED')\<close>),
  which the specification calls recordCompletedService: read the client's count, add one
  and the amount paid, write the count back (inserting the row when there is none), then
  check for a voucher with the new count. This is the step when the database accepts the
  write; \<open>updateAppointment\<close> below holds the case of a rejected write.
\<close>

definition recordCompletedService :: "zone \<Rightarrow> nat \<Rightarrow> ident \<Rightarrow> money \<Rightarrow> store \<Rightarrow> store" where
  "recordCompletedService z now cid amountPaid s =
     (let clientServiceCount = getClientServiceCount s cid;
          newCompletedServices =
            (case clientServiceCount of None \<Rightarrow> 0 | Some c \<Rightarrow> completedServices c) + 1;
          currentTotalSpent = (case clientServiceCount of None \<Rightarrow> 0 | Some c \<Rightarrow> totalSpent c);
          newTotalSpent = currentTotalSpent + amountPaid
      in checkAndCreateVoucher z now cid newCompletedServices
           (updateClientServiceCount cid newCompletedServices newTotalSpent s))"

text \<open>
  What the database rejects. A \<open>decimal(10,2)\<close> column holds amounts below 10^8, that is
  at most 9999999999 cents; an \<open>integer\<close> column holds 32-bit values; a \<open>text\<close> column
  holds no NUL character. A rejected statement throws and writes nothing.
\<close>

definition decimal_10_2 :: "money \<Rightarrow> bool" where
  "decimal_10_2 c = (\<bar>c\<bar> \<le> 9999999999)"

definition int4 :: "int \<Rightarrow> bool" where
  "int4 n = (- 2147483648 \<le> n \<and> n \<le> 2147483647)"

definition pg_text :: "string \<Rightarrow> bool" where
  "pg_text str = (CHR 0x00 \<notin> set str)"

text \<open>
  The request body of \<open>PUT /api/appointments/:id\<close> (\<open>UpdateAppointmentData\<close>: status,
  notes and price, each optional; the price is any string). The price is given by what the
  database's numeric input makes of the string: a numeric literal, with its value rounded
  to cents, or a string that is no numeric literal. An absent price and the empty string
  (which \<open>updates.price ? String(updates.price) : undefined\<close> drops) are \<open>None\<close>. The
  literals \<open>NaN\<close> and \<open>Infinity\<close> are not covered.
\<close>

datatype price_text = Numeric money | NotNumeric

record update_appointment_data =
  uad_status :: "appointment_status option"
  uad_notes :: "string option"
  uad_price :: "price_text option"

text \<open>
  The row update built from the body, \<open>None\<close> when the database rejects it: a price that
  is no number or does not fit the column, or notes with a NUL character.
\<close>

definition updateData :: "update_appointment_data \<Rightarrow> appointment_updates option" where
  "updateData body =
     (if (case uad_notes body of None \<Rightarrow> False | Some n \<Rightarrow> \<not> pg_text n) then None
      else
        (case uad_price body of
           None \<Rightarrow> Some \<lparr> upd_status = uad_status body, upd_notes = uad_notes body,
                           upd_price = None \<rparr>
         | Some NotNumeric \<Rightarrow> None
         | Some (Numeric c) \<Rightarrow>
             if decimal_10_2 c
             then Some \<lparr> upd_status = uad_status body, upd_notes = uad_notes body,
                          upd_price = Some c \<rparr>
             else None))"

text \<open>
  \<open>updateAppointment\<close>. The controller's \<open>try/catch\<close> answers INTERNAL_ERROR (500) when
  a statement throws, and nothing is rolled back: the ledger write comes first and throws
  without writing when the new count or total does not fit its column; the appointment
  update comes last and, when it throws, the ledger write and a voucher issued before it
  stay. The \<open>UPDATE_ERROR\<close> branch is the case of the update returning no row.
\<close>

definition updateAppointment ::
  "zone \<Rightarrow> nat \<Rightarrow> auth_user option \<Rightarrow> ident \<Rightarrow> update_appointment_data \<Rightarrow> store
     \<Rightarrow> (error + appointment) \<times> store" where
  "updateAppointment z now req_user i updates s =
     (case req_user of
        None \<Rightarrow> (Inl NOT_AUTHENTICATED, s)
      | Some u \<Rightarrow>
          (case getAppointment s i of
             None \<Rightarrow> (Inl APPOINTMENT_NOT_FOUND, s)
           | Some existingAppointment \<Rightarrow>
               if \<not> checkUpdatePermissions s u existingAppointment
               then (Inl UPDATE_PERMISSION_DENIED, s)
               else
                 (let completing = (uad_status updates = Some COMPLETED
                                     \<and> appt_status existingAppointment \<noteq> COMPLETED);
                      cid = clientId existingAppointment
                  in if completing
                        \<and> \<not> (int4 (ledgerCount s cid + 1)
                             \<and> decimal_10_2 (ledgerSpent s cid + amountOf existingAppointment))
                     then (Inl INTERNAL_ERROR, s)
                     else
                       (let s1 = (if completing
                                  then recordCompletedService z now cid
                                         (amountOf existingAppointment) s
                                  else s)
                        in (case updateData updates of
                              None \<Rightarrow> (Inl INTERNAL_ERROR, s1)
                            | Some u' \<Rightarrow>
                                (let (updatedAppointment, s2) = storage_updateAppointment i u' s1
                                 in (case updatedAppointment of
                                       None \<Rightarrow> (Inl UPDATE_ERROR, s2)
                                     | Some a \<Rightarrow> (Inr a, s2))))))))"

section \<open>Appointment controller: deleteAppointment\<close>

definition deleteAppointment ::
  "auth_user option \<Rightarrow> ident \<Rightarrow> store \<Rightarrow> (error + unit) \<times> store" where
  "deleteAppointment req_user i s =
     (case req_user of
        None \<Rightarrow> (Inl NOT_AUTHENTICATED, s)
      | Some u \<Rightarrow>
          (case getAppointment s i of
             None \<Rightarrow> (Inl APPOINTMENT_NOT_FOUND, s)
           | Some appointment \<Rightarrow>
               if \<not> (user_role u \<in> {ADMIN, SUPER_ADMIN})
               then (Inl DELETE_PERMISSION_DENIED, s)
               else
                 (case storage_deleteAppointment i s of
                    None \<Rightarrow> (Inl INTERNAL_ERROR, s)
                  | Some (deleted, s') \<Rightarrow>
                      if \<not> deleted then (Inl DELETE_ERROR, s') else (Inr (), s'))))"

text \<open>
  The route \<open>DELETE /api/appointments/:id\<close> runs the middleware
  \<open>requireAdmin = requireRole(['SUPER_ADMIN', 'ADMIN'])\<close> before the controller.
\<close>

definition requireRole :: "role list \<Rightarrow> auth_user option \<Rightarrow> error option" where
  "requireRole allowedRoles req_user =
     (case req_user of
        None \<Rightarrow> Some NOT_AUTHENTICATED
      | Some u \<Rightarrow> if \<not> (user_role u \<in> set allowedRoles) then Some INSUFFICIENT_PERMISSIONS else None)"

definition route_deleteAppointment ::
  "auth_user option \<Rightarrow> ident \<Rightarrow> store \<Rightarrow> (error + unit) \<times> store" where
  "route_deleteAppointment req_user i s =
     (case requireRole [SUPER_ADMIN, ADMIN] req_user of
        Some e \<Rightarrow> (Inl e, s)
      | None \<Rightarrow> deleteAppointment req_user i s)"

section \<open>Scheduler: cleanup of old pending appointments\<close>

definition auto_cancel_note :: string where
  "auto_cancel_note = '' [Auto-cancelado por prazo expirado]''"

definition cancel_updates :: "appointment \<Rightarrow> appointment_updates" where
  "cancel_updates appointment =
     \<lparr> upd_status = Some CANCELLED,
       upd_notes = Some ((case appt_notes appointment of None \<Rightarrow> [] | Some n \<Rightarrow> n) @ auto_cancel_note),
       upd_price = None \<rparr>"

text \<open>
  The first task of \<open>scheduleCleanupTasks\<close>: read the old pending appointments once, then
  update each of them by id.
\<close>

definition cleanupOldPending :: "string \<Rightarrow> store \<Rightarrow> store" where
  "cleanupOldPending today s =
     fold (\<lambda>appointment st. snd (storage_updateAppointment (appt_id appointment)
                                   (cancel_updates appointment) st))
       (getOldPendingAppointments today s) s"

section \<open>Loyalty controller\<close>

text \<open>The request body of \<open>POST /api/vouchers/config\<close>.\<close>

record configure_data =
  cd_servicesRequired :: int
  cd_discountPercentage :: int
  cd_validityDays :: int
  cd_description :: string

definition configureVouchers ::
  "auth_user option \<Rightarrow> configure_data \<Rightarrow> store \<Rightarrow> (error + voucher_config) \<times> store" where
  "configureVouchers req_user body s =
     (case req_user of
        None \<Rightarrow> (Inl NOT_AUTHENTICATED, s)
      | Some u \<Rightarrow>
          (let s1 = (case getActiveVoucherConfig s of
                       None \<Rightarrow> s
                     | Some existingConfig \<Rightarrow>
                         updateVoucherConfig (vc_id existingConfig) (\<lambda>c. c\<lparr> isActive := False \<rparr>) s);
               configData = \<lparr> ivc_servicesRequired = cd_servicesRequired body,
                              ivc_discountPercentage = cd_discountPercentage body,
                              ivc_validityDays = cd_validityDays body,
                              ivc_description = cd_description body,
                              ivc_isActive = True \<rparr>;
               (newConfig, s2) = createVoucherConfig configData s1
           in (Inr newConfig, s2)))"

text \<open>
  \<open>getUserVouchers\<close>: lists the caller's vouchers and marks the ACTIVE ones whose expiry
  is past as EXPIRED, in the store and in the listing. Of the response only the voucher
  list is modelled.
\<close>

definition stale :: "nat \<Rightarrow> voucher \<Rightarrow> bool" where
  "stale now v = (voucher_status v = ACTIVE \<and> expiryDate v < int now)"

definition getUserVouchers ::
  "nat \<Rightarrow> auth_user option \<Rightarrow> store \<Rightarrow> (error + voucher list) \<times> store" where
  "getUserVouchers now req_user s =
     (case req_user of
        None \<Rightarrow> (Inl NOT_AUTHENTICATED, s)
      | Some u \<Rightarrow>
          (let vs = storage_getUserVouchers s (user_id u)
           in (Inr (map (\<lambda>v. if stale now v then v\<lparr> voucher_status := EXPIRED \<rparr> else v) vs),
               fold (\<lambda>v st. if stale now v
                              then snd (updateVoucher (voucher_id v) (\<lambda>r. r\<lparr> voucher_status := EXPIRED \<rparr>) st)
                              else st) vs s)))"

text \<open>
  \<open>redeemVoucher\<close>: \<open>POST /api/vouchers/redeem\<close> with body \<open>{code, appointmentId?}\<close>.
  The success response carries the row returned by the update.
\<close>

definition redeemVoucher ::
  "nat \<Rightarrow> auth_user option \<Rightarrow> string \<Rightarrow> ident option \<Rightarrow> store
     \<Rightarrow> (error + voucher option) \<times> store" where
  "redeemVoucher now req_user c appointmentId s =
     (case req_user of
        None \<Rightarrow> (Inl NOT_AUTHENTICATED, s)
      | Some u \<Rightarrow>
          (case getVoucherByCode s c of
             None \<Rightarrow> (Inl VOUCHER_NOT_FOUND, s)
           | Some v \<Rightarrow>
               if voucher_userId v \<noteq> user_id u then (Inl VOUCHER_NOT_OWNED, s)
               else if voucher_status v \<noteq> ACTIVE then (Inl VOUCHER_INACTIVE, s)
               else if expiryDate v < int now
               then (Inl VOUCHER_EXPIRED,
                     snd (updateVoucher (voucher_id v) (\<lambda>r. r\<lparr> voucher_status := EXPIRED \<rparr>) s))
               else
                 (case (case appointmentId of
                          None \<Rightarrow> None
                        | Some aid \<Rightarrow>
                            (case getAppointment s aid of
                               None \<Rightarrow> Some APPOINTMENT_NOT_FOUND
                             | Some appointment \<Rightarrow>
                                 if clientId appointment \<noteq> user_id u
                                 then Some APPOINTMENT_NOT_OWNED else None)) of
                    Some e \<Rightarrow> (Inl e, s)
                  | None \<Rightarrow>
                      (let (updatedVoucher, s') =
                             updateVoucher (voucher_id v)
                               (\<lambda>r. r\<lparr> voucher_status := USED, usedAt := Some (int now),
                                        usedAppointmentId := appointmentId \<rparr>) s
                       in (Inr updatedVoucher, s')))))"

section \<open>Configuration controller\<close>

definition setBusinessHours ::
  "auth_user option \<Rightarrow> business_hours \<Rightarrow> store \<Rightarrow> (error + business_hours) \<times> store" where
  "setBusinessHours req_user bh s =
     (case req_user of
        None \<Rightarrow> (Inl NOT_AUTHENTICATED, s)
      | Some u \<Rightarrow> (Inr bh, s\<lparr> businessHoursConfig := Some bh \<rparr>))"

definition defaultHours :: business_hours where
  "defaultHours =
     \<lparr> monday = Some \<lparr> dh_start = ''08:00'', dh_end = ''18:00'' \<rparr>,
       tuesday = Some \<lparr> dh_start = ''08:00'', dh_end = ''18:00'' \<rparr>,
       wednesday = Some \<lparr> dh_start = ''08:00'', dh_end = ''18:00'' \<rparr>,
       thursday = Some \<lparr> dh_start = ''08:00'', dh_end = ''18:00'' \<rparr>,
       friday = Some \<lparr> dh_start = ''08:00'', dh_end = ''18:00'' \<rparr>,
       saturday = Some \<lparr> dh_start = ''08:00'', dh_end = ''16:00'' \<rparr>,
       sunday = None \<rparr>"

text \<open>\<open>getBusinessHours\<close>: the response fields \<open>businessHours\<close> and \<open>isDefault\<close>.\<close>

definition getBusinessHours :: "store \<Rightarrow> business_hours \<times> bool" where
  "getBusinessHours s =
     (case businessHoursConfig s of
        None \<Rightarrow> (defaultHours, True)
      | Some v \<Rightarrow> (v, False))"

text \<open>
  \<open>businessHours[dayNames[requestedDate.getDay()]]\<close>, with \<open>dayNames = ['sunday',
  'monday', ..., 'saturday']\<close>. The day index is \<open>None\<close> when the date is invalid
  (\<open>getDay()\<close> is \<open>NaN\<close>); the lookup is then undefined.
\<close>

definition dayHoursOf :: "business_hours \<Rightarrow> nat option \<Rightarrow> day_hours option" where
  "dayHoursOf bh day =
     (case day of
        None \<Rightarrow> None
      | Some n \<Rightarrow>
          if n = 0 then sunday bh else if n = 1 then monday bh
          else if n = 2 then tuesday bh else if n = 3 then wednesday bh
          else if n = 4 then thursday bh else if n = 5 then friday bh
          else if n = 6 then saturday bh else None)"

text \<open>
  \<open>getAvailableTimeSlots\<close>: \<open>GET /api/config/available-slots?date=...&barberId=...\<close>,
  on a host in time zone \<open>z\<close>. Of the response only \<open>availableSlots\<close> and whether the day
  is reported closed are modelled. The outer \<open>None\<close> marks an input outside the model: a
  date of another form than the route admits, or business hours whose times are \<open>Beyond\<close>.
\<close>

record slots_response =
  availableSlots :: "string list"
  closed :: bool

definition busySlotsOf :: "store \<Rightarrow> string \<Rightarrow> ident option \<Rightarrow> string list" where
  "busySlotsOf s date' barber =
     map appointmentTime
       (filter (\<lambda>apt. appt_status apt \<in> {SCHEDULED, CONFIRMED, IN_PROGRESS})
          (filter (\<lambda>apt. barber = None \<or> Some (barberId apt) = barber)
             (getAppointmentsByDateRange s date' date')))"

definition getAvailableTimeSlots ::
  "zone \<Rightarrow> string option \<Rightarrow> ident option \<Rightarrow> store \<Rightarrow> (error + slots_response) option" where
  "getAvailableTimeSlots z date' barber s =
     (case date' of
        None \<Rightarrow> Some (Inl MISSING_DATE)
      | Some d \<Rightarrow>
          if d = [] then Some (Inl MISSING_DATE)
          else
            (case businessHoursConfig s of
               None \<Rightarrow> Some (Inl BUSINESS_HOURS_NOT_CONFIGURED)
             | Some businessHours \<Rightarrow>
                 (case getDay z d of
                    None \<Rightarrow> None
                  | Some day \<Rightarrow>
                      (case dayHoursOf businessHours day of
                         None \<Rightarrow> Some (Inr \<lparr> availableSlots = [], closed = True \<rparr>)
                       | Some dayHours \<Rightarrow>
                           (case generateTimeSlots (dh_start dayHours) (dh_end dayHours) of
                              None \<Rightarrow> None
                            | Some slots \<Rightarrow>
                                Some (Inr \<lparr> availableSlots =
                                              filter (\<lambda>slot. slot \<notin> set (busySlotsOf s d barber))
                                                slots,
                                            closed = False \<rparr>))))))"

section \<open>Operations as store transformers\<close>



definition empty_store :: store where
  "empty_store =
     \<lparr> barbeiros = [], appointments = [], clientServiceCounts = [], voucherConfigs = [],
       vouchers = [], businessHoursConfig = None, nextId = 0 \<rparr>"

section \<open>Predicates and example stores used in the claims\<close>

text \<open>
  The slot \<open>(staff, date, time)\<close> holds a non-terminal appointment when some stored
  appointment of that staff member, date and time is in status SCHEDULED, CONFIRMED or
  IN_PROGRESS.
\<close>

definition non_terminal :: "appointment_status \<Rightarrow> bool" where
  "non_terminal st = (st = SCHEDULED \<or> st = CONFIRMED \<or> st = IN_PROGRESS)"


text \<open>
  A store with an available barber (id 1), an unavailable barber (id 3) and one booking of
  2025-06-09 10:00 with barber 1.
\<close>

definition booked_store :: store where
  "booked_store =
     \<lparr> barbeiros = [\<lparr> barbeiro_id = 1, barbeiro_userId = 20, isAvailable = True \<rparr>,
                    \<lparr> barbeiro_id = 3, barbeiro_userId = 21, isAvailable = False \<rparr>],
       appointments =
         [\<lparr> appt_id = 5, clientId = 30, barberId = 1, serviceType = ''corte'',
            appointmentDate = ''2025-06-09'', appointmentTime = ''10:00'',
            appt_status = SCHEDULED, appt_notes = None, price = None \<rparr>],
       clientServiceCounts = [], voucherConfigs = [], vouchers = [],
       businessHoursConfig = None, nextId = 6 \<rparr>"


text \<open>
  A store for the status claims: barber 1 (user 20), client 30 with one COMPLETED
  appointment (id 5, price 25.00, already counted in the ledger) and one CANCELLED
  appointment (id 6).
\<close>

definition completed_store :: store where
  "completed_store =
     \<lparr> barbeiros = [\<lparr> barbeiro_id = 1, barbeiro_userId = 20, isAvailable = True \<rparr>],
       appointments =
         [\<lparr> appt_id = 5, clientId = 30, barberId = 1, serviceType = ''corte'',
            appointmentDate = ''2025-06-09'', appointmentTime = ''10:00'',
            appt_status = COMPLETED, appt_notes = None, price = Some 2500 \<rparr>,
          \<lparr> appt_id = 6, clientId = 30, barberId = 1, serviceType = ''barba'',
            appointmentDate = ''2025-06-10'', appointmentTime = ''11:00'',
            appt_status = CANCELLED, appt_notes = None, price = None \<rparr>],
       clientServiceCounts = [\<lparr> csc_userId = 30, completedServices = 1, totalSpent = 2500 \<rparr>],
       voucherConfigs = [], vouchers = [], businessHoursConfig = None, nextId = 7 \<rparr>"

definition admin_user :: auth_user where
  "admin_user = \<lparr> user_id = 99, user_role = ADMIN \<rparr>"

definition client_user :: auth_user where
  "client_user = \<lparr> user_id = 30, user_role = CLIENTE \<rparr>"

text \<open>A request body that carries a status only.\<close>

definition set_status :: "appointment_status \<Rightarrow> update_appointment_data" where
  "set_status st = \<lparr> uad_status = Some st, uad_notes = None, uad_price = None \<rparr>"

text \<open>
  A sequence of updateAppointment calls on one appointment that all submit COMPLETED; each
  call has its own clock reading, caller, notes and price.
\<close>

type_synonym complete_call = "nat \<times> auth_user option \<times> string option \<times> price_text option"

definition submitCompleted :: "zone \<Rightarrow> ident \<Rightarrow> complete_call \<Rightarrow> store \<Rightarrow> store" where
  "submitCompleted z i call s =
     (case call of (now, req_user, n, p) \<Rightarrow>
        snd (updateAppointment z now req_user i
               \<lparr> uad_status = Some COMPLETED, uad_notes = n, uad_price = p \<rparr> s))"

definition completeMany :: "zone \<Rightarrow> ident \<Rightarrow> complete_call list \<Rightarrow> store \<Rightarrow> store" where
  "completeMany z i calls s = fold (submitCompleted z i) calls s"

text \<open>
  A store for the ledger claims: barber 1 (user 20); clients 30 and 31 have each completed
  four services; client 30 has a SCHEDULED appointment 5 priced 25.00 and client 31 a
  SCHEDULED appointment 6 without a price; the active voucher configuration asks for five
  services and gives vouchers valid for 30 days.
\<close>

definition loyalty_store :: store where
  "loyalty_store =
     \<lparr> barbeiros = [\<lparr> barbeiro_id = 1, barbeiro_userId = 20, isAvailable = True \<rparr>],
       appointments =
         [\<lparr> appt_id = 5, clientId = 30, barberId = 1, serviceType = ''corte'',
            appointmentDate = ''2025-06-09'', appointmentTime = ''10:00'',
            appt_status = SCHEDULED, appt_notes = None, price = Some 2500 \<rparr>,
          \<lparr> appt_id = 6, clientId = 31, barberId = 1, serviceType = ''barba'',
            appointmentDate = ''2025-06-09'', appointmentTime = ''11:00'',
            appt_status = SCHEDULED, appt_notes = None, price = None \<rparr>],
       clientServiceCounts =
         [\<lparr> csc_userId = 30, completedServices = 4, totalSpent = 10000 \<rparr>,
          \<lparr> csc_userId = 31, completedServices = 4, totalSpent = 8000 \<rparr>],
       voucherConfigs =
         [\<lparr> vc_id = 2, servicesRequired = 5, discountPercentage = 10, validityDays = 30,
            description = ''fidelidade'', isActive = True \<rparr>],
       vouchers = [], businessHoursConfig = None, nextId = 7 \<rparr>"

definition barber_user :: auth_user where
  "barber_user = \<lparr> user_id = 20, user_role = BARBEIRO \<rparr>"

text \<open>
  Three COMPLETED submissions by permitted callers, and a COMPLETED submission whose price
  is no number followed by the same submission without a price.
\<close>

definition three_submissions :: "complete_call list" where
  "three_submissions =
     [(1000, Some admin_user, None, None),
      (2000, Some barber_user, Some ''pago'', Some (Numeric 3000)),
      (3000, Some admin_user, None, None)]"

definition bad_price_then_retry :: "complete_call list" where
  "bad_price_then_retry =
     [(1000, Some admin_user, None, Some NotNumeric),
      (2000, Some admin_user, None, None)]"

text \<open>
  The appointment check of redeemVoucher passes when no appointment is named, or the named
  appointment exists and belongs to the caller.
\<close>

definition appointment_ok :: "store \<Rightarrow> auth_user \<Rightarrow> ident option \<Rightarrow> bool" where
  "appointment_ok s u appointmentId =
     (case appointmentId of
        None \<Rightarrow> True
      | Some aid \<Rightarrow>
          (case getAppointment s aid of
             None \<Rightarrow> False
           | Some appointment \<Rightarrow> clientId appointment = user_id u))"



text \<open>
  What the cleanup is expected to do to one appointment, written without the storage
  layer: an appointment is stale when it is SCHEDULED and dated before today, and
  cancelling it sets CANCELLED and appends the annotation to its notes.
\<close>

definition stale_pending :: "string \<Rightarrow> appointment \<Rightarrow> bool" where
  "stale_pending today a = (appt_status a = SCHEDULED \<and> appointmentDate a < today)"

definition auto_cancel :: "appointment \<Rightarrow> appointment" where
  "auto_cancel a =
     a\<lparr> appt_status := CANCELLED,
        appt_notes := Some ((case appt_notes a of None \<Rightarrow> [] | Some n \<Rightarrow> n) @ auto_cancel_note) \<rparr>"

text \<open>The cleanup loop on the rows of the appointments table.\<close>

definition cancel_rows :: "appointment list \<Rightarrow> appointment list \<Rightarrow> appointment list" where
  "cancel_rows olds rows =
     fold (\<lambda>a rs. map (\<lambda>r. if appt_id r = appt_id a then apply_updates (cancel_updates a) r else r) rs) olds rows"

text \<open>
  A store for the cleanup claim: appointment 5 is SCHEDULED and dated 2025-06-01,
  appointment 6 is SCHEDULED and dated 2025-06-10, appointment 7 is CONFIRMED and dated
  2025-05-20.
\<close>

definition stale_store :: store where
  "stale_store =
     \<lparr> barbeiros = [\<lparr> barbeiro_id = 1, barbeiro_userId = 20, isAvailable = True \<rparr>],
       appointments =
         [\<lparr> appt_id = 5, clientId = 30, barberId = 1, serviceType = ''corte'',
            appointmentDate = ''2025-06-01'', appointmentTime = ''10:00'',
            appt_status = SCHEDULED, appt_notes = Some ''primeira visita'', price = None \<rparr>,
          \<lparr> appt_id = 6, clientId = 31, barberId = 1, serviceType = ''barba'',
            appointmentDate = ''2025-06-10'', appointmentTime = ''11:00'',
            appt_status = SCHEDULED, appt_notes = None, price = None \<rparr>,
          \<lparr> appt_id = 7, clientId = 31, barberId = 1, serviceType = ''barba'',
            appointmentDate = ''2025-05-20'', appointmentTime = ''09:00'',
            appt_status = CONFIRMED, appt_notes = None, price = None \<rparr>],
       clientServiceCounts = [], voucherConfigs = [], vouchers = [],
       businessHoursConfig = None, nextId = 8 \<rparr>"




text \<open>
  Stores for the availability claims. \<open>monday_store\<close> is open on Mondays only, 08:00 to
  18:00, and has one CONFIRMED appointment at 09:30 and one CANCELLED appointment at 10:00
  on Monday 2025-06-09, both with barber 1. \<open>free_monday_store\<close> has the same hours and
  no appointment. \<open>sunday_store\<close> is open on Mondays 08:00 to 18:00 and on Sundays 10:00
  to 12:00 and has no appointment.
\<close>

definition monday_hours :: business_hours where
  "monday_hours =
     \<lparr> monday = Some \<lparr> dh_start = ''08:00'', dh_end = ''18:00'' \<rparr>, tuesday = None,
       wednesday = None, thursday = None, friday = None, saturday = None, sunday = None \<rparr>"

definition monday_store :: store where
  "monday_store =
     \<lparr> barbeiros = [\<lparr> barbeiro_id = 1, barbeiro_userId = 20, isAvailable = True \<rparr>],
       appointments =
         [\<lparr> appt_id = 5, clientId = 30, barberId = 1, serviceType = ''corte'',
            appointmentDate = ''2025-06-09'', appointmentTime = ''09:30'',
            appt_status = CONFIRMED, appt_notes = None, price = None \<rparr>,
          \<lparr> appt_id = 6, clientId = 31, barberId = 1, serviceType = ''barba'',
            appointmentDate = ''2025-06-09'', appointmentTime = ''10:00'',
            appt_status = CANCELLED, appt_notes = None, price = None \<rparr>],
       clientServiceCounts = [], voucherConfigs = [], vouchers = [],
       businessHoursConfig = Some monday_hours, nextId = 7 \<rparr>"

definition free_monday_store :: store where
  "free_monday_store =
     \<lparr> barbeiros = [\<lparr> barbeiro_id = 1, barbeiro_userId = 20, isAvailable = True \<rparr>],
       appointments = [], clientServiceCounts = [], voucherConfigs = [], vouchers = [],
       businessHoursConfig = Some monday_hours, nextId = 2 \<rparr>"

definition sunday_store :: store where
  "sunday_store =
     \<lparr> barbeiros = [\<lparr> barbeiro_id = 1, barbeiro_userId = 20, isAvailable = True \<rparr>],
       appointments = [], clientServiceCounts = [], voucherConfigs = [], vouchers = [],
       businessHoursConfig =
         Some \<lparr> monday = Some \<lparr> dh_start = ''08:00'', dh_end = ''18:00'' \<rparr>, tuesday = None,
                wednesday = None, thursday = None, friday = None, saturday = None,
                sunday = Some \<lparr> dh_start = ''10:00'', dh_end = ''12:00'' \<rparr> \<rparr>,
       nextId = 2 \<rparr>"

section \<open>Claims\<close>




subsection \<open>Facts about the storage layer\<close>

lemma appt_id_apply_updates [simp]: "appt_id (apply_updates u a) = appt_id a"
  by (simp add: apply_updates_def)

lemma clientId_apply_updates [simp]: "clientId (apply_updates u a) = clientId a"
  by (simp add: apply_updates_def)

lemma find_map_same_key:
  assumes "\<And>a. key (f a) = key a"
  shows "find (\<lambda>a. key a = i) (map (\<lambda>a. if key a = i then f a else a) xs)
         = map_option f (find (\<lambda>a. key a = i) xs)"
  using assms by (induction xs) auto

lemma getAppointment_storage_update:
  "getAppointment (snd (storage_updateAppointment i u s)) i
     = map_option (apply_updates u) (getAppointment s i)"
  by (simp add: getAppointment_def storage_updateAppointment_def Let_def find_map_same_key)

lemma fst_storage_update:
  "fst (storage_updateAppointment i u s) = map_option (apply_updates u) (getAppointment s i)"
  by (simp add: getAppointment_def storage_updateAppointment_def Let_def find_map_same_key)

lemma appointments_updateClientServiceCount [simp]:
  "appointments (updateClientServiceCount c n t s) = appointments s"
  by (simp add: updateClientServiceCount_def split: option.splits)

lemma appointments_checkAndCreateVoucher [simp]:
  "appointments (checkAndCreateVoucher z now c n s) = appointments s"
  by (auto simp: checkAndCreateVoucher_def createVoucher_def Let_def split: option.splits if_splits)

lemma appointments_recordCompletedService [simp]:
  "appointments (recordCompletedService z now c p s) = appointments s"
  by (simp add: recordCompletedService_def Let_def)

lemma getAppointment_cong:
  "appointments s = appointments s' \<Longrightarrow> getAppointment s i = getAppointment s' i"
  by (simp add: getAppointment_def)

subsection \<open>Status transitions\<close>

lemma checkUpdatePermissions_rule:
  "checkUpdatePermissions s u a
     = (user_role u = SUPER_ADMIN \<or> user_role u = ADMIN \<or>
        (user_role u = BARBEIRO \<and>
           map_option barbeiro_id (getBarbeiroByUserId s (user_id u)) = Some (barberId a)) \<or>
        (user_role u = CLIENTE \<and> clientId a = user_id u \<and> appt_status a \<noteq> COMPLETED))"
  by (cases "user_role u") (auto simp: checkUpdatePermissions_def split: option.splits)

lemma updateData_status: "updateData body = Some u' \<Longrightarrow> upd_status u' = uad_status body"
  by (auto simp: updateData_def split: if_splits option.splits price_text.splits)

text \<open>
  The call for an existing appointment and a permitted caller, with the lookups resolved:
  when the ledger write is rejected, when the call does not complete the appointment, and
  when it completes it and the ledger write is accepted.
\<close>

lemma fst_update_existing:
  assumes "getAppointment s i = Some a" "appointments s' = appointments s"
  shows "fst (storage_updateAppointment i u' s') = Some (apply_updates u' a)"
  using assms getAppointment_cong [OF assms(2), of i] by (simp only: fst_storage_update option.map)

lemma updateAppointment_ledger_rejected:
  assumes "getAppointment s i = Some a" "checkUpdatePermissions s u a"
    "uad_status body = Some COMPLETED" "appt_status a \<noteq> COMPLETED"
    "\<not> (int4 (ledgerCount s (clientId a) + 1)
         \<and> decimal_10_2 (ledgerSpent s (clientId a) + amountOf a))"
  shows "updateAppointment z now (Some u) i body s = (Inl INTERNAL_ERROR, s)"
  using assms by (simp add: updateAppointment_def Let_def)

lemma updateAppointment_plain:
  assumes "getAppointment s i = Some a" "checkUpdatePermissions s u a"
    "\<not> (uad_status body = Some COMPLETED \<and> appt_status a \<noteq> COMPLETED)"
  shows "updateAppointment z now (Some u) i body s =
     (case updateData body of
        None \<Rightarrow> (Inl INTERNAL_ERROR, s)
      | Some u' \<Rightarrow> (Inr (apply_updates u' a), snd (storage_updateAppointment i u' s)))"
proof -
  have f: "\<And>u'. fst (storage_updateAppointment i u' s) = Some (apply_updates u' a)"
    by (rule fst_update_existing [OF assms(1)]) simp
  show ?thesis
    using assms f
    by (auto simp: updateAppointment_def Let_def case_prod_beta split: option.splits)
qed

lemma updateAppointment_completing:
  assumes "getAppointment s i = Some a" "checkUpdatePermissions s u a"
    "uad_status body = Some COMPLETED" "appt_status a \<noteq> COMPLETED"
    "int4 (ledgerCount s (clientId a) + 1)"
    "decimal_10_2 (ledgerSpent s (clientId a) + amountOf a)"
  shows "updateAppointment z now (Some u) i body s =
     (case updateData body of
        None \<Rightarrow> (Inl INTERNAL_ERROR, recordCompletedService z now (clientId a) (amountOf a) s)
      | Some u' \<Rightarrow>
          (Inr (apply_updates u' a),
           snd (storage_updateAppointment i u'
                  (recordCompletedService z now (clientId a) (amountOf a) s))))"
proof -
  have f: "\<And>u'. fst (storage_updateAppointment i u'
                        (recordCompletedService z now (clientId a) (amountOf a) s))
                 = Some (apply_updates u' a)"
    by (rule fst_update_existing [OF assms(1)]) simp
  show ?thesis
    using assms f
    by (auto simp: updateAppointment_def Let_def case_prod_beta split: option.splits)
qed

text \<open>
  C2 (counterexample). The claim: once an appointment is COMPLETED or CANCELLED, no
  updateStatus call changes its status. In \<open>completed_store\<close> appointment 5 is COMPLETED and
  appointment 6 is CANCELLED; an administrator sets appointment 5 back to SCHEDULED, and the
  owning client sets the cancelled appointment 6 to CONFIRMED. Both calls succeed and the
  stored status changes.
\<close>

theorem updateAppointment_terminal_counterexample:
  "map_option appt_status (getAppointment completed_store 5) = Some COMPLETED \<and>
   map_option appt_status
     (getAppointment (snd (updateAppointment utc_zone 1000 (Some admin_user) 5
                             (set_status SCHEDULED) completed_store)) 5) = Some SCHEDULED \<and>
   map_option appt_status (getAppointment completed_store 6) = Some CANCELLED \<and>
   map_option appt_status
     (getAppointment (snd (updateAppointment utc_zone 1000 (Some client_user) 6
                             (set_status CONFIRMED) completed_store)) 6) = Some CONFIRMED"
  by (simp add: completed_store_def admin_user_def client_user_def set_status_def
      updateAppointment_def getAppointment_def checkUpdatePermissions_def updateData_def
      storage_updateAppointment_def apply_updates_def Let_def)

text \<open>
  C2 (amended). updateAppointment has no transition check; the current status matters only
  in the permission rule for clients. Take an existing appointment and an authenticated
  caller. The caller is permitted when they are an administrator (ADMIN or SUPER_ADMIN), or
  a barber whose barber record is the one the appointment is assigned to, or the client who
  owns the appointment while it is not COMPLETED. A caller who is not permitted is refused
  with UPDATE_PERMISSION_DENIED (403) and the store is unchanged; in particular a CLIENTE
  caller can never change an appointment that is COMPLETED. For a permitted caller the
  outcome depends on the database alone: when it rejects a write of the call (a price that
  is no number or exceeds ten digits, notes with a NUL character or, on completion, a
  ledger count or total that does not fit its column) the answer is INTERNAL_ERROR (500)
  and the stored appointment, its status included, is as before; otherwise the call
  succeeds and the stored status is the requested one, or the old one when the request
  carries no status, whatever the old status was, COMPLETED and CANCELLED included.
\<close>

theorem updateAppointment_status_effect:
  assumes "getAppointment s i = Some a"
  shows
    "(let r = updateAppointment z now (Some u) i body s;
          permitted =
            (user_role u = SUPER_ADMIN \<or> user_role u = ADMIN \<or>
             (user_role u = BARBEIRO \<and>
                map_option barbeiro_id (getBarbeiroByUserId s (user_id u)) = Some (barberId a)) \<or>
             (user_role u = CLIENTE \<and> clientId a = user_id u \<and> appt_status a \<noteq> COMPLETED));
          completing = (uad_status body = Some COMPLETED \<and> appt_status a \<noteq> COMPLETED);
          accepted =
            (updateData body \<noteq> None \<and>
             (completing \<longrightarrow> int4 (ledgerCount s (clientId a) + 1)
                            \<and> decimal_10_2 (ledgerSpent s (clientId a) + amountOf a)))
      in (\<not> permitted \<longrightarrow> r = (Inl UPDATE_PERMISSION_DENIED, s)) \<and>
         (user_role u = CLIENTE \<and> appt_status a = COMPLETED \<longrightarrow>
            r = (Inl UPDATE_PERMISSION_DENIED, s)) \<and>
         (permitted \<and> \<not> accepted \<longrightarrow>
            fst r = Inl INTERNAL_ERROR \<and> getAppointment (snd r) i = Some a) \<and>
         (permitted \<and> accepted \<longrightarrow>
            (\<exists>a'. fst r = Inr a' \<and> getAppointment (snd r) i = Some a' \<and>
                  appt_status a'
                    = (case uad_status body of None \<Rightarrow> appt_status a | Some st \<Rightarrow> st))))"
proof -
  let ?r = "updateAppointment z now (Some u) i body s"
  let ?permitted = "checkUpdatePermissions s u a"
  let ?completing = "uad_status body = Some COMPLETED \<and> appt_status a \<noteq> COMPLETED"
  let ?fits = "int4 (ledgerCount s (clientId a) + 1)
                 \<and> decimal_10_2 (ledgerSpent s (clientId a) + amountOf a)"
  let ?rec = "recordCompletedService z now (clientId a) (amountOf a) s"
  let ?new = "case uad_status body of None \<Rightarrow> appt_status a | Some st \<Rightarrow> st"
  have grec: "getAppointment ?rec i = Some a"
    using assms getAppointment_cong [of ?rec s i] by simp
  have stored: "\<And>u' s'. getAppointment s' i = Some a \<Longrightarrow>
                  getAppointment (snd (storage_updateAppointment i u' s')) i
                    = Some (apply_updates u' a)"
    by (simp only: getAppointment_storage_update option.map)
  have status: "\<And>u'. updateData body = Some u' \<Longrightarrow> appt_status (apply_updates u' a) = ?new"
    by (simp add: apply_updates_def updateData_status)
  have denied: "\<not> ?permitted \<longrightarrow> ?r = (Inl UPDATE_PERMISSION_DENIED, s)"
    using assms by (simp add: updateAppointment_def)
  have client: "user_role u = CLIENTE \<and> appt_status a = COMPLETED \<longrightarrow>
                  ?r = (Inl UPDATE_PERMISSION_DENIED, s)"
    using denied by (simp add: checkUpdatePermissions_rule)
  have rejected: "?permitted \<and> \<not> (updateData body \<noteq> None \<and> (?completing \<longrightarrow> ?fits)) \<longrightarrow>
                    fst ?r = Inl INTERNAL_ERROR \<and> getAppointment (snd ?r) i = Some a"
  proof
    assume h: "?permitted \<and> \<not> (updateData body \<noteq> None \<and> (?completing \<longrightarrow> ?fits))"
    then have p: ?permitted by simp
    consider (ledger) "?completing" "\<not> ?fits"
      | (plain) "\<not> ?completing" "updateData body = None"
      | (completing) "?completing" "?fits" "updateData body = None"
      using h by blast
    then show "fst ?r = Inl INTERNAL_ERROR \<and> getAppointment (snd ?r) i = Some a"
    proof cases
      case ledger
      then have "?r = (Inl INTERNAL_ERROR, s)"
        using updateAppointment_ledger_rejected [OF assms p, of body z now] by blast
      then show ?thesis using assms by simp
    next
      case plain
      have "?r = (Inl INTERNAL_ERROR, s)"
        using updateAppointment_plain [OF assms p plain(1), of z now] plain(2) by simp
      then show ?thesis using assms by simp
    next
      case completing
      have "?r = (Inl INTERNAL_ERROR, ?rec)"
        using updateAppointment_completing [OF assms p, of body z now] completing by simp
      then show ?thesis using grec by simp
    qed
  qed
  have success: "?permitted \<and> updateData body \<noteq> None \<and> (?completing \<longrightarrow> ?fits) \<longrightarrow>
                   (\<exists>a'. fst ?r = Inr a' \<and> getAppointment (snd ?r) i = Some a' \<and>
                      appt_status a' = ?new)"
  proof
    assume h: "?permitted \<and> updateData body \<noteq> None \<and> (?completing \<longrightarrow> ?fits)"
    then have p: ?permitted by simp
    from h obtain u' where u': "updateData body = Some u'" by auto
    have "\<exists>s'. getAppointment s' i = Some a
             \<and> ?r = (Inr (apply_updates u' a), snd (storage_updateAppointment i u' s'))"
    proof (cases ?completing)
      case False
      have "?r = (Inr (apply_updates u' a), snd (storage_updateAppointment i u' s))"
        using updateAppointment_plain [OF assms p False, of z now] u' by simp
      then show ?thesis using assms by blast
    next
      case True
      then have "?r = (Inr (apply_updates u' a), snd (storage_updateAppointment i u' ?rec))"
        using updateAppointment_completing [OF assms p, of body z now] h u' by simp
      then show ?thesis using grec by blast
    qed
    then obtain s' where s': "getAppointment s' i = Some a"
      "?r = (Inr (apply_updates u' a), snd (storage_updateAppointment i u' s'))" by blast
    have "fst ?r = Inr (apply_updates u' a)" by (simp add: s'(2))
    moreover have "getAppointment (snd ?r) i = Some (apply_updates u' a)"
      using stored [OF s'(1), of u'] by (simp add: s'(2))
    ultimately show "\<exists>a'. fst ?r = Inr a' \<and> getAppointment (snd ?r) i = Some a' \<and>
                      appt_status a' = ?new"
      using status [OF u'] by blast
  qed
  from denied client rejected success show ?thesis
    unfolding Let_def checkUpdatePermissions_rule [symmetric] by blast
qed

theorem updateAppointment_status_effect_witness:
  "getAppointment completed_store 5
     = Some \<lparr> appt_id = 5, clientId = 30, barberId = 1, serviceType = ''corte'',
              appointmentDate = ''2025-06-09'', appointmentTime = ''10:00'',
              appt_status = COMPLETED, appt_notes = None, price = Some 2500 \<rparr> \<and>
   fst (updateAppointment utc_zone 1000 (Some admin_user) 5 (set_status CANCELLED)
          completed_store)
     = Inr \<lparr> appt_id = 5, clientId = 30, barberId = 1, serviceType = ''corte'',
             appointmentDate = ''2025-06-09'', appointmentTime = ''10:00'',
             appt_status = CANCELLED, appt_notes = None, price = Some 2500 \<rparr> \<and>
   map_option appt_status
     (getAppointment (snd (updateAppointment utc_zone 1000 (Some admin_user) 5
                             (set_status CANCELLED) completed_store)) 5) = Some CANCELLED \<and>
   updateAppointment utc_zone 1000 (Some client_user) 5 (set_status CANCELLED) completed_store
     = (Inl UPDATE_PERMISSION_DENIED, completed_store) \<and>
   fst (updateAppointment utc_zone 1000 (Some admin_user) 5
          \<lparr> uad_status = Some CANCELLED, uad_notes = None, uad_price = Some NotNumeric \<rparr>
          completed_store) = Inl INTERNAL_ERROR \<and>
   map_option appt_status
     (getAppointment (snd (updateAppointment utc_zone 1000 (Some admin_user) 5
          \<lparr> uad_status = Some CANCELLED, uad_notes = None, uad_price = Some NotNumeric \<rparr>
          completed_store)) 5) = Some COMPLETED"
proof -
  let ?a = "\<lparr> appt_id = 5, clientId = 30, barberId = 1, serviceType = ''corte'',
              appointmentDate = ''2025-06-09'', appointmentTime = ''10:00'',
              appt_status = COMPLETED, appt_notes = None, price = Some 2500 \<rparr>"
  let ?bad = "\<lparr> uad_status = Some CANCELLED, uad_notes = None, uad_price = Some NotNumeric \<rparr>"
  have g: "getAppointment completed_store 5 = Some ?a"
    by (simp add: completed_store_def getAppointment_def)
  have ok: "updateData (set_status CANCELLED) \<noteq> None"
    by (simp add: updateData_def set_status_def)
  have bad: "updateData ?bad = None"
    by (simp add: updateData_def)
  have val: "fst (updateAppointment utc_zone 1000 (Some admin_user) 5 (set_status CANCELLED)
                    completed_store) = Inr (?a\<lparr> appt_status := CANCELLED \<rparr>)"
    by (simp add: completed_store_def admin_user_def set_status_def
        updateAppointment_def getAppointment_def checkUpdatePermissions_def updateData_def
        storage_updateAppointment_def apply_updates_def Let_def)
  have adm: "map_option appt_status
     (getAppointment (snd (updateAppointment utc_zone 1000 (Some admin_user) 5
                             (set_status CANCELLED) completed_store)) 5) = Some CANCELLED"
    using updateAppointment_status_effect [OF g, where u = admin_user and body = "set_status CANCELLED"
            and z = utc_zone and now = 1000] ok
    by (auto simp: Let_def admin_user_def set_status_def)
  have cli: "updateAppointment utc_zone 1000 (Some client_user) 5 (set_status CANCELLED)
               completed_store = (Inl UPDATE_PERMISSION_DENIED, completed_store)"
    using updateAppointment_status_effect [OF g, where u = client_user and body = "set_status CANCELLED"
            and z = utc_zone and now = 1000]
    by (simp add: Let_def client_user_def)
  have rej: "fst (updateAppointment utc_zone 1000 (Some admin_user) 5 ?bad completed_store)
               = Inl INTERNAL_ERROR \<and>
             getAppointment (snd (updateAppointment utc_zone 1000 (Some admin_user) 5 ?bad
                                    completed_store)) 5 = Some ?a"
    using updateAppointment_status_effect [OF g, where u = admin_user and body = ?bad
            and z = utc_zone and now = 1000] bad
    by (simp add: Let_def admin_user_def)
  from g val adm cli rej show ?thesis by simp
qed

subsection \<open>The loyalty ledger\<close>

lemma ledger_storage_update [simp]:
  "clientServiceCounts (snd (storage_updateAppointment i u s)) = clientServiceCounts s"
  "vouchers (snd (storage_updateAppointment i u s)) = vouchers s"
  by (simp_all add: storage_updateAppointment_def Let_def)

lemma ledger_checkAndCreateVoucher [simp]:
  "clientServiceCounts (checkAndCreateVoucher z now c n s) = clientServiceCounts s"
  by (auto simp: checkAndCreateVoucher_def createVoucher_def Let_def split: option.splits if_splits)

lemma ledger_recordCompletedService:
  "clientServiceCounts (recordCompletedService z now c p s)
     = clientServiceCounts (updateClientServiceCount c (ledgerCount s c + 1) (ledgerSpent s c + p) s)"
  by (simp add: recordCompletedService_def Let_def ledgerCount_def ledgerSpent_def)

text \<open>
  The guard \<open>existingAppointment.status !== 'COMPLETED'\<close> does what it is there for: a
  COMPLETED submission on an appointment that is stored as COMPLETED leaves the ledger and
  the vouchers as they are and the appointment COMPLETED, and so does any sequence of them.
\<close>

lemma submit_on_completed:
  assumes "getAppointment s i = Some a" "appt_status a = COMPLETED"
  shows "\<exists>a'. getAppointment (submitCompleted z i call s) i = Some a'
              \<and> appt_status a' = COMPLETED
              \<and> clientServiceCounts (submitCompleted z i call s) = clientServiceCounts s
              \<and> vouchers (submitCompleted z i call s) = vouchers s"
proof -
  obtain now ru n p where call: "call = (now, ru, n, p)" by (cases call) auto
  let ?body = "\<lparr> uad_status = Some COMPLETED, uad_notes = n, uad_price = p \<rparr>"
  have sc: "submitCompleted z i call s = snd (updateAppointment z now ru i ?body s)"
    by (simp add: call submitCompleted_def)
  show ?thesis
  proof (cases ru)
    case None
    then show ?thesis using assms by (simp add: sc updateAppointment_def)
  next
    case (Some u)
    show ?thesis
    proof (cases "checkUpdatePermissions s u a")
      case False
      then show ?thesis using assms Some by (simp add: sc updateAppointment_def)
    next
      case True
      show ?thesis
      proof (cases "updateData ?body")
        case None
        then show ?thesis using assms \<open>ru = Some u\<close>
          by (simp add: sc updateAppointment_plain [OF assms(1) True])
      next
        case (Some u')
        have eq: "submitCompleted z i call s = snd (storage_updateAppointment i u' s)"
          using assms \<open>ru = Some u\<close> Some
          by (simp add: sc updateAppointment_plain [OF assms(1) True])
        have g: "getAppointment (submitCompleted z i call s) i = Some (apply_updates u' a)"
          using assms(1) by (simp only: eq getAppointment_storage_update option.map)
        have st: "appt_status (apply_updates u' a) = COMPLETED"
          using updateData_status [OF Some] by (simp add: apply_updates_def)
        from g st show ?thesis by (simp add: eq)
      qed
    qed
  qed
qed

lemma completed_stays:
  assumes "getAppointment s i = Some a" "appt_status a = COMPLETED"
  shows "clientServiceCounts (completeMany z i calls s) = clientServiceCounts s \<and>
         vouchers (completeMany z i calls s) = vouchers s"
  using assms
proof (induction calls arbitrary: s a)
  case Nil
  then show ?case by (simp add: completeMany_def)
next
  case (Cons call calls)
  have unfold: "completeMany z i (call # calls) s = completeMany z i calls (submitCompleted z i call s)"
    by (simp add: completeMany_def)
  from submit_on_completed [OF Cons.prems, of z call]
  obtain a' where a': "getAppointment (submitCompleted z i call s) i = Some a'"
      "appt_status a' = COMPLETED"
      "clientServiceCounts (submitCompleted z i call s) = clientServiceCounts s"
      "vouchers (submitCompleted z i call s) = vouchers s"
    by blast
  from Cons.IH [OF a'(1) a'(2)] a'(3) a'(4) show ?case by (simp add: unfold)
qed

text \<open>
  Three COMPLETED submissions that the database accepts (\<open>three_submissions\<close>, on
  appointment 5 of \<open>loyalty_store\<close>) count once: the first one stores COMPLETED.
\<close>

lemma three_submissions_once:
  "ledgerCount (completeMany utc_zone 5 three_submissions loyalty_store) 30 = 5 \<and>
   ledgerSpent (completeMany utc_zone 5 three_submissions loyalty_store) 30 = 12500 \<and>
   map_option appt_status
     (getAppointment (completeMany utc_zone 5 three_submissions loyalty_store) 5)
     = Some COMPLETED"
  by code_simp

lemma find_csc_map:
  "find (\<lambda>r. csc_userId r = c') (map (\<lambda>r. if csc_userId r = c then r\<lparr> completedServices := n, totalSpent := t \<rparr> else r) xs)
     = (if c' = c then map_option (\<lambda>r. r\<lparr> completedServices := n, totalSpent := t \<rparr>) (find (\<lambda>r. csc_userId r = c) xs)
        else find (\<lambda>r. csc_userId r = c') xs)"
  by (induction xs) auto

lemma find_append_new:
  "find P (xs @ [x]) = (case find P xs of Some y \<Rightarrow> Some y | None \<Rightarrow> if P x then Some x else None)"
  by (induction xs) auto

lemma getClientServiceCount_update:
  "getClientServiceCount (updateClientServiceCount c n t s) c'
     = (if c' = c then Some (case getClientServiceCount s c of
                               None \<Rightarrow> \<lparr> csc_userId = c, completedServices = n, totalSpent = t \<rparr>
                             | Some r \<Rightarrow> r\<lparr> completedServices := n, totalSpent := t \<rparr>)
        else getClientServiceCount s c')"
  by (auto simp: getClientServiceCount_def updateClientServiceCount_def find_csc_map find_append_new
      split: option.splits)

lemma ledgerCount_update:
  "ledgerCount (updateClientServiceCount c n t s) c' = (if c' = c then n else ledgerCount s c')"
  by (simp add: ledgerCount_def getClientServiceCount_update split: option.splits)

lemma ledgerSpent_update:
  "ledgerSpent (updateClientServiceCount c n t s) c' = (if c' = c then t else ledgerSpent s c')"
  by (simp add: ledgerSpent_def getClientServiceCount_update split: option.splits)

lemma ledger_cong:
  "clientServiceCounts s = clientServiceCounts s' \<Longrightarrow> ledgerCount s c = ledgerCount s' c \<and> ledgerSpent s c = ledgerSpent s' c"
  by (simp add: ledgerCount_def ledgerSpent_def getClientServiceCount_def)

text \<open>
  C3 (the code at the failing input). In \<open>loyalty_store\<close> client 30 has four completed
  services and a spend of 100.00, and appointment 5 of that client is SCHEDULED with price
  25.00. An administrator submits COMPLETED together with a price that is no number: the
  ledger is written first (count 5, spend 125.00), then the appointment update is rejected,
  the call answers INTERNAL_ERROR and the appointment is still SCHEDULED. The administrator
  submits COMPLETED again without a price: the guard sees a SCHEDULED appointment, the
  ledger is written again (count 6, spend 150.00) and the appointment becomes COMPLETED.
  One appointment has been counted twice.
\<close>

theorem completed_counted_twice:
  "map_option appt_status (getAppointment loyalty_store 5) = Some SCHEDULED \<and>
   ledgerCount loyalty_store 30 = 4 \<and>
   ledgerSpent loyalty_store 30 = 10000 \<and>
   fst (updateAppointment utc_zone 1000 (Some admin_user) 5
          \<lparr> uad_status = Some COMPLETED, uad_notes = None, uad_price = Some NotNumeric \<rparr>
          loyalty_store) = Inl INTERNAL_ERROR \<and>
   map_option appt_status
     (getAppointment (completeMany utc_zone 5 (take 1 bad_price_then_retry) loyalty_store) 5)
     = Some SCHEDULED \<and>
   ledgerCount (completeMany utc_zone 5 (take 1 bad_price_then_retry) loyalty_store) 30 = 5 \<and>
   map_option appt_status
     (getAppointment (completeMany utc_zone 5 bad_price_then_retry loyalty_store) 5)
     = Some COMPLETED \<and>
   ledgerCount (completeMany utc_zone 5 bad_price_then_retry loyalty_store) 30 = 6 \<and>
   ledgerSpent (completeMany utc_zone 5 bad_price_then_retry loyalty_store) 30 = 15000"
  by code_simp

subsection \<open>Recording a completed service\<close>

lemma js_rem_dvd: "js_rem a b = Some 0 \<longleftrightarrow> b \<noteq> 0 \<and> b dvd a"
proof -
  have "\<bar>a\<bar> mod \<bar>b\<bar> = 0 \<longleftrightarrow> b dvd a"
    by (simp add: mod_eq_0_iff_dvd)
  moreover have "sgn a * (\<bar>a\<bar> mod \<bar>b\<bar>) = 0 \<longleftrightarrow> a = 0 \<or> \<bar>a\<bar> mod \<bar>b\<bar> = 0"
    by (simp add: sgn_if)
  ultimately show ?thesis by (auto simp: js_rem_def)
qed

text \<open>
  The ledger part of recordCompletedService: the client's count grows by exactly one and the
  spend by the amount paid, a missing row counting as zero and being created; no other
  client's figures change.
\<close>

lemma recordCompletedService_ledger:
  "ledgerCount (recordCompletedService z now c p s) c'
     = (if c' = c then ledgerCount s c + 1 else ledgerCount s c')"
  "ledgerSpent (recordCompletedService z now c p s) c'
     = (if c' = c then ledgerSpent s c + p else ledgerSpent s c')"
  "getClientServiceCount (recordCompletedService z now c p s) c \<noteq> None"
proof -
  let ?u = "updateClientServiceCount c (ledgerCount s c + 1) (ledgerSpent s c + p) s"
  have eq: "clientServiceCounts (recordCompletedService z now c p s) = clientServiceCounts ?u"
    by (rule ledger_recordCompletedService)
  show "ledgerCount (recordCompletedService z now c p s) c'
          = (if c' = c then ledgerCount s c + 1 else ledgerCount s c')"
    using ledger_cong [OF eq, of c'] by (simp add: ledgerCount_update)
  show "ledgerSpent (recordCompletedService z now c p s) c'
          = (if c' = c then ledgerSpent s c + p else ledgerSpent s c')"
    using ledger_cong [OF eq, of c'] by (simp add: ledgerSpent_update)
  have "getClientServiceCount (recordCompletedService z now c p s) c = getClientServiceCount ?u c"
    using eq by (simp add: getClientServiceCount_def)
  then show "getClientServiceCount (recordCompletedService z now c p s) c \<noteq> None"
    by (simp add: getClientServiceCount_update)
qed

lemma tables_updateClientServiceCount [simp]:
  "voucherConfigs (updateClientServiceCount c n t s) = voucherConfigs s"
  "vouchers (updateClientServiceCount c n t s) = vouchers s"
  "nextId (updateClientServiceCount c n t s) = nextId s"
  by (simp_all add: updateClientServiceCount_def split: option.splits)

text \<open>
  The voucher part: a voucher is appended exactly when there is an active configuration,
  the new count is a multiple of its \<open>servicesRequired\<close>, no stored voucher already
  carries the code derived from the clock reading, and the expiry is a valid date.
\<close>

lemma recordCompletedService_vouchers:
  "vouchers (recordCompletedService z now c p s) =
     (case getActiveVoucherConfig s of
        None \<Rightarrow> vouchers s
      | Some config \<Rightarrow>
          if js_rem (ledgerCount s c + 1) (servicesRequired config) = Some 0
             \<and> voucherCode now \<notin> code ` set (vouchers s)
          then (case addDays z (int now) (validityDays config) of
                  None \<Rightarrow> vouchers s
                | Some expiry \<Rightarrow>
                    vouchers s @ [\<lparr> voucher_id = nextId s, voucher_userId = c,
                                    configId = vc_id config, code = voucherCode now,
                                    voucher_status = ACTIVE, expiryDate = expiry,
                                    usedAt = None, usedAppointmentId = None \<rparr>])
          else vouchers s)"
  by (auto simp: recordCompletedService_def checkAndCreateVoucher_def createVoucher_def Let_def
      getActiveVoucherConfig_def ledgerCount_def list_ex_iff image_iff split: option.splits)

text \<open>
  C4 (the code at the failing input). In \<open>loyalty_store\<close> the active configuration asks for
  five services and clients 30 and 31 have four each. Both complete their fifth service
  while the clock reads 1000: the first recording issues voucher FIDELIDADE1000 to client
  30; the second recording raises client 31's count to 5, a multiple of 5 under an active
  configuration, and issues nothing, because the insert of a second voucher with code
  FIDELIDADE1000 is rejected and the rejection is swallowed.
\<close>

theorem recordCompletedService_code_collision:
  "ledgerCount (recordCompletedService utc_zone 1000 31 0
                  (recordCompletedService utc_zone 1000 30 2500 loyalty_store)) 31 = 5 \<and>
   map_option servicesRequired
     (getActiveVoucherConfig (recordCompletedService utc_zone 1000 30 2500 loyalty_store))
     = Some 5 \<and>
   js_rem 5 5 = Some 0 \<and>
   map voucher_userId
     (vouchers (recordCompletedService utc_zone 1000 31 0
                  (recordCompletedService utc_zone 1000 30 2500 loyalty_store))) = [30] \<and>
   map code
     (vouchers (recordCompletedService utc_zone 1000 31 0
                  (recordCompletedService utc_zone 1000 30 2500 loyalty_store)))
     = [''FIDELIDADE1000'']"
  by code_simp

subsection \<open>Voucher redemption\<close>

lemma find_map_invariant:
  assumes "\<And>x. P (g x) = P x"
  shows "find P (map g xs) = map_option g (find P xs)"
  using assms by (induction xs) auto


lemma getVoucherByCode_updateVoucher:
  assumes "\<And>r. code (f r) = code r"
  shows "getVoucherByCode (snd (updateVoucher i f s)) c
           = map_option (\<lambda>v. if voucher_id v = i then f v else v) (getVoucherByCode s c)"
proof -
  have "\<And>x. (code (if voucher_id x = i then f x else x) = c) = (code x = c)"
    using assms by simp
  then show ?thesis
    by (simp add: getVoucherByCode_def updateVoucher_def Let_def find_map_invariant)
qed

lemma appointment_check_ok:
  "appointment_ok s u aid \<Longrightarrow>
     (case aid of None \<Rightarrow> None
      | Some a \<Rightarrow> (case getAppointment s a of None \<Rightarrow> Some APPOINTMENT_NOT_FOUND
                   | Some appointment \<Rightarrow> if clientId appointment \<noteq> user_id u
                                           then Some APPOINTMENT_NOT_OWNED else None)) = None"
  by (auto simp: appointment_ok_def split: option.splits)


lemma redeem_success:
  assumes g: "getVoucherByCode s c = Some v"
    and h: "voucher_userId v = user_id u" "voucher_status v = ACTIVE" "\<not> expiryDate v < int now"
      "appointment_ok s u aid"
  shows "isl (fst (redeemVoucher now (Some u) c aid s)) = False"
    and "getVoucherByCode (snd (redeemVoucher now (Some u) c aid s)) c
           = Some (v\<lparr> voucher_status := USED, usedAt := Some (int now),
                       usedAppointmentId := aid \<rparr>)"
    and "redeemVoucher now' (Some u) c aid' (snd (redeemVoucher now (Some u) c aid s))
           = (Inl VOUCHER_INACTIVE, snd (redeemVoucher now (Some u) c aid s))"
proof -
  let ?f = "\<lambda>r. r\<lparr> voucher_status := USED, usedAt := Some (int now), usedAppointmentId := aid \<rparr>"
  let ?s' = "snd (updateVoucher (voucher_id v) ?f s)"
  have r: "redeemVoucher now (Some u) c aid s = (Inr (fst (updateVoucher (voucher_id v) ?f s)), ?s')"
    using g h appointment_check_ok [of s u aid]
    by (simp add: redeemVoucher_def split: prod.splits)
  show "isl (fst (redeemVoucher now (Some u) c aid s)) = False" by (simp add: r)
  have g': "getVoucherByCode ?s' c = Some (?f v)"
    using g by (simp add: getVoucherByCode_updateVoucher)
  then show "getVoucherByCode (snd (redeemVoucher now (Some u) c aid s)) c = Some (?f v)"
    by (simp add: r)
  have "redeemVoucher now' (Some u) c aid' ?s' = (Inl VOUCHER_INACTIVE, ?s')"
    using g' h by (simp add: redeemVoucher_def)
  then show "redeemVoucher now' (Some u) c aid' (snd (redeemVoucher now (Some u) c aid s))
               = (Inl VOUCHER_INACTIVE, snd (redeemVoucher now (Some u) c aid s))"
    by (simp add: r)
qed

lemma find_append_fresh:
  "\<not> list_ex P xs \<Longrightarrow> find P (xs @ [x]) = (if P x then Some x else None)"
  by (induction xs) auto

text \<open>
  A voucher issued by recordCompletedService is found by its code, ACTIVE and owned by the
  client, and when its expiry is not before the clock reading its owner can redeem it at
  once.
\<close>

lemma issued_voucher_redeemable:
  assumes cfg: "getActiveVoucherConfig s = Some config"
    and thr: "js_rem (ledgerCount s c + 1) (servicesRequired config) = Some 0"
    and fresh: "voucherCode now \<notin> code ` set (vouchers s)"
    and owner: "user_id u = c"
    and expiry: "addDays z (int now) (validityDays config) = Some e"
    and valid: "int now \<le> e"
  shows "getVoucherByCode (recordCompletedService z now c p s) (voucherCode now)
           = Some \<lparr> voucher_id = nextId s, voucher_userId = c, configId = vc_id config,
                    code = voucherCode now, voucher_status = ACTIVE,
                    expiryDate = e, usedAt = None, usedAppointmentId = None \<rparr>"
    and "isl (fst (redeemVoucher now (Some u) (voucherCode now) None
                     (recordCompletedService z now c p s))) = False"
proof -
  let ?v = "\<lparr> voucher_id = nextId s, voucher_userId = c, configId = vc_id config,
                    code = voucherCode now, voucher_status = ACTIVE,
                    expiryDate = e, usedAt = None, usedAppointmentId = None \<rparr>"
  let ?s' = "recordCompletedService z now c p s"
  have v: "vouchers ?s' = vouchers s @ [?v]"
    using cfg thr fresh expiry by (simp add: recordCompletedService_vouchers)
  have nf: "\<not> list_ex (\<lambda>v. code v = voucherCode now) (vouchers s)"
    using fresh by (force simp: list_ex_iff image_iff)
  show g: "getVoucherByCode ?s' (voucherCode now) = Some ?v"
    by (simp add: getVoucherByCode_def v find_append_fresh [OF nf])
  have "\<not> expiryDate ?v < int now" using valid by simp
  then show "isl (fst (redeemVoucher now (Some u) (voucherCode now) None ?s')) = False"
    using redeem_success(1) [OF g, of u now None] owner by (simp add: appointment_ok_def)
qed



subsection \<open>Cleanup of old pending appointments\<close>

lemma fold_cancel_store:
  "fold (\<lambda>appointment st. snd (storage_updateAppointment (appt_id appointment)
                                   (cancel_updates appointment) st)) olds s
     = s\<lparr> appointments := cancel_rows olds (appointments s) \<rparr>"
  by (induction olds arbitrary: s) (simp_all add: cancel_rows_def storage_updateAppointment_def Let_def)

lemma find_absent: "i \<notin> appt_id ` set xs \<Longrightarrow> find (\<lambda>b. appt_id b = i) xs = None"
  by (induction xs) auto

lemma cancel_rows_map:
  "distinct (map appt_id olds) \<Longrightarrow>
     cancel_rows olds rows
       = map (\<lambda>r. case find (\<lambda>a. appt_id a = appt_id r) olds of
                     None \<Rightarrow> r
                   | Some a \<Rightarrow> apply_updates (cancel_updates a) r) rows"
proof (induction olds arbitrary: rows)
  case Nil
  then show ?case by (simp add: cancel_rows_def)
next
  case (Cons a olds)
  have d: "distinct (map appt_id olds)" and na: "appt_id a \<notin> appt_id ` set olds"
    using Cons.prems by auto
  have step: "cancel_rows (a # olds) rows
        = cancel_rows olds (map (\<lambda>r. if appt_id r = appt_id a then apply_updates (cancel_updates a) r else r) rows)"
    by (simp add: cancel_rows_def)
  show ?case
    unfolding step Cons.IH [OF d]
    using find_absent [OF na]
    by (auto simp: o_def)
qed

lemma find_filter_distinct:
  "distinct (map appt_id rows) \<Longrightarrow> r \<in> set rows \<Longrightarrow>
     find (\<lambda>a. appt_id a = appt_id r) (filter P rows) = (if P r then Some r else None)"
proof (induction rows)
  case Nil
  then show ?case by simp
next
  case (Cons x rows)
  show ?case
  proof (cases "r = x")
    case True
    have "appt_id x \<notin> appt_id ` set (filter P rows)" using Cons.prems(1) by auto
    from find_absent [OF this] True show ?thesis by simp
  next
    case False
    then have "r \<in> set rows" using Cons.prems(2) by simp
    moreover have "appt_id x \<noteq> appt_id r" using Cons.prems(1) \<open>r \<in> set rows\<close> by auto
    ultimately show ?thesis using Cons.IH Cons.prems(1) by simp
  qed
qed

lemma apply_cancel: "apply_updates (cancel_updates a) a = auto_cancel a"
  by (simp add: apply_updates_def cancel_updates_def auto_cancel_def)

lemma cleanup_rows:
  assumes "distinct (map appt_id (appointments s))"
  shows "cleanupOldPending today s
           = s\<lparr> appointments := map (\<lambda>a. if stale_pending today a then auto_cancel a else a)
                                   (appointments s) \<rparr>"
proof -
  let ?olds = "filter (stale_pending today) (appointments s)"
  have olds: "getOldPendingAppointments today s = ?olds"
    by (simp add: getOldPendingAppointments_def stale_pending_def [abs_def])
  have d: "distinct (map appt_id ?olds)"
    using assms by (simp add: distinct_map_filter)
  have "cancel_rows ?olds (appointments s)
          = map (\<lambda>a. if stale_pending today a then auto_cancel a else a) (appointments s)"
    unfolding cancel_rows_map [OF d]
    by (rule map_cong) (simp_all add: find_filter_distinct [OF assms] apply_cancel)
  then show ?thesis
    by (simp add: cleanupOldPending_def fold_cancel_store olds)
qed

lemma no_stale_after:
  "filter (stale_pending today) (map (\<lambda>a. if stale_pending today a then auto_cancel a else a) rows) = []"
  by (induction rows) (auto simp: stale_pending_def auto_cancel_def)

text \<open>
  C8. In a store whose appointment ids are distinct, one run of the cleanup with today's
  date \<open>today\<close> turns every appointment that is SCHEDULED and dated strictly before
  \<open>today\<close> into CANCELLED with \<open> [Auto-cancelado por prazo expirado]\<close> appended to its
  notes (an absent note counting as empty), and changes nothing else. Afterwards no
  appointment is eligible, and a second run with the same date returns the same store.
\<close>

theorem cleanupOldPending_effect:
  assumes "distinct (map appt_id (appointments s))"
  shows "cleanupOldPending today s
           = s\<lparr> appointments :=
                  map (\<lambda>a. if appt_status a = SCHEDULED \<and> appointmentDate a < today
                            then a\<lparr> appt_status := CANCELLED,
                                    appt_notes := Some ((case appt_notes a of None \<Rightarrow> [] | Some n \<Rightarrow> n)
                                                        @ '' [Auto-cancelado por prazo expirado]'') \<rparr>
                            else a)
                    (appointments s) \<rparr> \<and>
         getOldPendingAppointments today (cleanupOldPending today s) = [] \<and>
         cleanupOldPending today (cleanupOldPending today s) = cleanupOldPending today s"
proof -
  have a: "cleanupOldPending today s
           = s\<lparr> appointments := map (\<lambda>a. if stale_pending today a then auto_cancel a else a)
                                   (appointments s) \<rparr>"
    by (rule cleanup_rows [OF assms])
  have b: "getOldPendingAppointments today (cleanupOldPending today s) = []"
    unfolding a using no_stale_after [of today "appointments s"]
    by (simp add: getOldPendingAppointments_def stale_pending_def [abs_def])
  have c: "cleanupOldPending today (cleanupOldPending today s) = cleanupOldPending today s"
    using b by (simp add: cleanupOldPending_def [of today "cleanupOldPending today s"])
  from a b c show ?thesis
    by (simp add: stale_pending_def auto_cancel_def auto_cancel_note_def)
qed

theorem cleanupOldPending_effect_witness:
  "distinct (map appt_id (appointments stale_store)) \<and>
   appointments (cleanupOldPending ''2025-06-10'' stale_store)
     = [\<lparr> appt_id = 5, clientId = 30, barberId = 1, serviceType = ''corte'',
          appointmentDate = ''2025-06-01'', appointmentTime = ''10:00'',
          appt_status = CANCELLED,
          appt_notes = Some ''primeira visita [Auto-cancelado por prazo expirado]'',
          price = None \<rparr>,
        \<lparr> appt_id = 6, clientId = 31, barberId = 1, serviceType = ''barba'',
          appointmentDate = ''2025-06-10'', appointmentTime = ''11:00'',
          appt_status = SCHEDULED, appt_notes = None, price = None \<rparr>,
        \<lparr> appt_id = 7, clientId = 31, barberId = 1, serviceType = ''barba'',
          appointmentDate = ''2025-05-20'', appointmentTime = ''09:00'',
          appt_status = CONFIRMED, appt_notes = None, price = None \<rparr>] \<and>
   cleanupOldPending ''2025-06-10'' (cleanupOldPending ''2025-06-10'' stale_store)
     = cleanupOldPending ''2025-06-10'' stale_store"
proof -
  have d: "distinct (map appt_id (appointments stale_store))"
    by (simp add: stale_store_def)
  note eff = cleanupOldPending_effect [OF d, of "''2025-06-10''"]
  from eff have "appointments (cleanupOldPending ''2025-06-10'' stale_store)
      = map (\<lambda>a. if appt_status a = SCHEDULED \<and> appointmentDate a < ''2025-06-10''
                  then a\<lparr> appt_status := CANCELLED,
                          appt_notes := Some ((case appt_notes a of None \<Rightarrow> [] | Some n \<Rightarrow> n)
                                              @ '' [Auto-cancelado por prazo expirado]'') \<rparr>
                  else a)
          (appointments stale_store)"
    by simp
  then have a: "appointments (cleanupOldPending ''2025-06-10'' stale_store)
     = [\<lparr> appt_id = 5, clientId = 30, barberId = 1, serviceType = ''corte'',
          appointmentDate = ''2025-06-01'', appointmentTime = ''10:00'',
          appt_status = CANCELLED,
          appt_notes = Some ''primeira visita [Auto-cancelado por prazo expirado]'',
          price = None \<rparr>,
        \<lparr> appt_id = 6, clientId = 31, barberId = 1, serviceType = ''barba'',
          appointmentDate = ''2025-06-10'', appointmentTime = ''11:00'',
          appt_status = SCHEDULED, appt_notes = None, price = None \<rparr>,
        \<lparr> appt_id = 7, clientId = 31, barberId = 1, serviceType = ''barba'',
          appointmentDate = ''2025-05-20'', appointmentTime = ''09:00'',
          appt_status = CONFIRMED, appt_notes = None, price = None \<rparr>]"
    by (simp add: stale_store_def)
  from eff have c: "cleanupOldPending ''2025-06-10'' (cleanupOldPending ''2025-06-10'' stale_store)
     = cleanupOldPending ''2025-06-10'' stale_store"
    by blast
  from d a c show ?thesis by blast
qed

subsection \<open>Voucher configurations\<close>

lemma vc_createAppointment [simp]:
  "voucherConfigs (snd (createAppointment u body s)) = voucherConfigs s"
  by (simp add: createAppointment_def storage_createAppointment_def Let_def split: option.splits)

lemma vc_checkAndCreateVoucher [simp]:
  "voucherConfigs (checkAndCreateVoucher z now c n s) = voucherConfigs s"
  by (auto simp: checkAndCreateVoucher_def createVoucher_def Let_def split: option.splits if_splits)

lemma vc_recordCompletedService [simp]:
  "voucherConfigs (recordCompletedService z now c p s) = voucherConfigs s"
  by (simp add: recordCompletedService_def Let_def)

lemma vc_storage_updateAppointment [simp]:
  "voucherConfigs (snd (storage_updateAppointment i u s)) = voucherConfigs s"
  by (simp add: storage_updateAppointment_def Let_def)

lemma vc_updateAppointment [simp]:
  "voucherConfigs (snd (updateAppointment z now u i upd s)) = voucherConfigs s"
  by (simp add: updateAppointment_def Let_def case_prod_beta split: option.splits)

lemma vc_deleteAppointment [simp]:
  "voucherConfigs (snd (deleteAppointment u i s)) = voucherConfigs s"
  by (auto simp: deleteAppointment_def storage_deleteAppointment_def split: option.splits if_splits)

lemma vc_cleanupOldPending [simp]:
  "voucherConfigs (cleanupOldPending today s) = voucherConfigs s"
  by (simp add: cleanupOldPending_def fold_cancel_store)

lemma vc_updateVoucher [simp]:
  "voucherConfigs (snd (updateVoucher i f s)) = voucherConfigs s"
  by (simp add: updateVoucher_def Let_def)

lemma vc_fold_expire:
  "voucherConfigs (fold (\<lambda>v st. if stale now v
                              then snd (updateVoucher (voucher_id v) f st)
                              else st) vs s) = voucherConfigs s"
  by (induction vs arbitrary: s) simp_all

lemma vc_getUserVouchers [simp]:
  "voucherConfigs (snd (getUserVouchers now u s)) = voucherConfigs s"
  by (simp add: getUserVouchers_def Let_def vc_fold_expire split: option.splits)

lemma vc_redeemVoucher [simp]:
  "voucherConfigs (snd (redeemVoucher now u c aid s)) = voucherConfigs s"
  by (simp add: redeemVoucher_def Let_def case_prod_beta split: option.splits)

lemma vc_setBusinessHours [simp]:
  "voucherConfigs (snd (setBusinessHours u bh s)) = voucherConfigs s"
  by (simp add: setBusinessHours_def split: option.splits)






lemma configure_unauth [simp]: "snd (configureVouchers None body s) = s"
  by (simp add: configureVouchers_def)





subsection \<open>Deleting an appointment\<close>

text \<open>
  Over HTTP the route runs \<open>requireAdmin\<close> first, so a non-administrator is turned away
  with INSUFFICIENT_PERMISSIONS before the controller looks the appointment up.
\<close>

lemma route_delete_role_first:
  "user_role u \<noteq> ADMIN \<Longrightarrow> user_role u \<noteq> SUPER_ADMIN \<Longrightarrow>
     route_deleteAppointment (Some u) i s = (Inl INSUFFICIENT_PERMISSIONS, s)"
  by (simp add: route_deleteAppointment_def requireRole_def)

text \<open>
  C10. In the controller deleteAppointment the existence check comes before the role check:
  for an authenticated caller of any role, and so for every non-administrator, a missing
  appointment gives APPOINTMENT_NOT_FOUND (404) and the store is unchanged; a
  non-administrator gets DELETE_PERMISSION_DENIED (403) when the appointment exists, and
  DELETE_PERMISSION_DENIED is returned only when the appointment exists and the caller is
  not an administrator.
\<close>

theorem deleteAppointment_existence_first:
  "(getAppointment s i = None \<longrightarrow>
      deleteAppointment (Some u) i s = (Inl APPOINTMENT_NOT_FOUND, s)) \<and>
   (getAppointment s i \<noteq> None \<and> user_role u \<noteq> ADMIN \<and> user_role u \<noteq> SUPER_ADMIN \<longrightarrow>
      deleteAppointment (Some u) i s = (Inl DELETE_PERMISSION_DENIED, s)) \<and>
   (fst (deleteAppointment (Some u) i s) = Inl DELETE_PERMISSION_DENIED \<longrightarrow>
      getAppointment s i \<noteq> None \<and> user_role u \<noteq> ADMIN \<and> user_role u \<noteq> SUPER_ADMIN)"
  by (auto simp: deleteAppointment_def storage_deleteAppointment_def
      split: option.splits if_splits prod.splits)

theorem deleteAppointment_existence_first_witness:
  "getAppointment booked_store 77 = None \<and>
   deleteAppointment (Some client_user) 77 booked_store = (Inl APPOINTMENT_NOT_FOUND, booked_store) \<and>
   getAppointment booked_store 5 \<noteq> None \<and>
   deleteAppointment (Some client_user) 5 booked_store = (Inl DELETE_PERMISSION_DENIED, booked_store)"
proof -
  have a: "getAppointment booked_store 77 = None"
    by (simp add: getAppointment_def booked_store_def)
  have b: "getAppointment booked_store 5 \<noteq> None"
    by (simp add: getAppointment_def booked_store_def)
  have c: "user_role client_user \<noteq> ADMIN \<and> user_role client_user \<noteq> SUPER_ADMIN"
    by (simp add: client_user_def)
  from deleteAppointment_existence_first [of booked_store 77 client_user]
       deleteAppointment_existence_first [of booked_store 5 client_user] a b c
  show ?thesis by simp
qed

subsection \<open>Availability\<close>

text \<open>
  C6 (counterexample). The claim: with no BusinessHours configuration the availability
  computation falls back to the default weekly schedule and still produces slots. In the
  empty store, for Monday 2025-06-09, getAvailableTimeSlots answers
  BUSINESS_HOURS_NOT_CONFIGURED and produces no slots.
\<close>

theorem getAvailableTimeSlots_no_config_counterexample:
  "businessHoursConfig empty_store = None \<and>
   getDay utc_zone ''2025-06-09'' = Some (Some 1) \<and>
   getAvailableTimeSlots utc_zone (Some ''2025-06-09'') None empty_store
     = Some (Inl BUSINESS_HOURS_NOT_CONFIGURED)"
  by code_simp

text \<open>
  C6 (amended). When no BusinessHours configuration is stored, getAvailableTimeSlots, for
  any non-empty date and any barber filter, fails with BUSINESS_HOURS_NOT_CONFIGURED
  (HTTP 500) and produces no slots. The default weekly schedule (Monday to Friday
  08:00-18:00, Saturday 08:00-16:00, Sunday closed) is what the business-hours query
  getBusinessHours reports in that situation, flagged as default.
\<close>

theorem getAvailableTimeSlots_needs_config:
  "businessHoursConfig s = None \<longrightarrow>
     (d \<noteq> [] \<longrightarrow>
        getAvailableTimeSlots z (Some d) barber s = Some (Inl BUSINESS_HOURS_NOT_CONFIGURED)) \<and>
     http_status BUSINESS_HOURS_NOT_CONFIGURED = 500 \<and>
     getBusinessHours s
       = (\<lparr> monday = Some \<lparr> dh_start = ''08:00'', dh_end = ''18:00'' \<rparr>,
            tuesday = Some \<lparr> dh_start = ''08:00'', dh_end = ''18:00'' \<rparr>,
            wednesday = Some \<lparr> dh_start = ''08:00'', dh_end = ''18:00'' \<rparr>,
            thursday = Some \<lparr> dh_start = ''08:00'', dh_end = ''18:00'' \<rparr>,
            friday = Some \<lparr> dh_start = ''08:00'', dh_end = ''18:00'' \<rparr>,
            saturday = Some \<lparr> dh_start = ''08:00'', dh_end = ''16:00'' \<rparr>,
            sunday = None \<rparr>, True)"
  by (simp add: getAvailableTimeSlots_def getBusinessHours_def defaultHours_def)

theorem getAvailableTimeSlots_needs_config_witness:
  "businessHoursConfig empty_store = None \<and>
   getAvailableTimeSlots utc_zone (Some ''2025-06-08'') (Some 1) empty_store
     = Some (Inl BUSINESS_HOURS_NOT_CONFIGURED) \<and>
   fst (getBusinessHours empty_store) = defaultHours"
proof -
  have a: "businessHoursConfig empty_store = None" by (simp add: empty_store_def)
  from getAvailableTimeSlots_needs_config [of empty_store "''2025-06-08''" utc_zone "Some 1"] a
  show ?thesis by (simp add: defaultHours_def)
qed

text \<open>
  The slot loop in closed form: from \<open>c\<close> up to but excluding \<open>e\<close> in steps of 30, in
  this order.
\<close>

lemma slots_count_step:
  fixes c e :: int
  assumes "c < e"
  shows "nat ((e - c + 29) div 30) = Suc (nat ((e - (c + 30) + 29) div 30))"
proof -
  have "(e - c + 29) div 30 = (e - (c + 30) + 29) div 30 + 1" by simp
  moreover have "0 \<le> (e - (c + 30) + 29) div 30" using assms by simp
  ultimately show ?thesis by simp
qed

lemma slots_count_none:
  fixes c e :: int
  assumes "\<not> c < e"
  shows "nat ((e - c + 29) div 30) = 0"
  using zdiv_mono1 [of "e - c + 29" 29 30] assms by simp

lemma slots_unroll:
  "map (\<lambda>k. formatTime (c + 30 * int k)) [0 ..< Suc n]
     = formatTime c # map (\<lambda>k. formatTime (c + 30 + 30 * int k)) [0 ..< n]"
proof -
  have step: "\<And>k. c + 30 * int (Suc k) = c + 30 + 30 * int k" by simp
  show ?thesis by (simp only: map_upt_Suc step) simp
qed

lemma slots_from_steps:
  "slots_from c e = map (\<lambda>k. formatTime (c + 30 * int k)) [0 ..< nat ((e - c + 29) div 30)]"
proof (induction c e rule: slots_from.induct)
  case (1 current "end")
  show ?case
  proof (cases "current < end")
    case True
    have "slots_from current end = formatTime current # slots_from (current + 30) end"
      using True by (simp add: slots_from.simps [of current "end"])
    also have "slots_from (current + 30) end
        = map (\<lambda>k. formatTime (current + 30 + 30 * int k))
            [0 ..< nat ((end - (current + 30) + 29) div 30)]"
      using "1.IH" [OF True] .
    finally show ?thesis
      by (simp only: slots_count_step [OF True] slots_unroll)
  next
    case False
    then show ?thesis
      by (simp add: slots_from.simps [of current "end"] slots_count_none [OF False])
  qed
qed

lemma busySlotsOf_set:
  "set (busySlotsOf s d barber)
     = appointmentTime ` {a \<in> set (appointments s). appointmentDate a = d
                             \<and> non_terminal (appt_status a)
                             \<and> (barber = None \<or> barber = Some (barberId a))}"
  by (auto simp: busySlotsOf_def getAppointmentsByDateRange_def non_terminal_def)

text \<open>
  What the computation does for the weekday it looks up, the weekday of the date's UTC
  midnight in the host's local time: without hours for that weekday the answer is empty
  and marked closed; with hours that parse to \<open>t_open\<close> and \<open>t_close\<close> minutes the slots
  are the formatted times \<open>t_open\<close>, \<open>t_open + 30\<close>, ... below \<open>t_close\<close>, without the
  times of the date's SCHEDULED, CONFIRMED and IN_PROGRESS appointments (of the given
  barber only, when one is given).
\<close>

lemma available_closed_day:
  assumes "businessHoursConfig s = Some bh" "d \<noteq> []" "getDay z d = Some day"
    "dayHoursOf bh day = None"
  shows "getAvailableTimeSlots z (Some d) barber s
           = Some (Inr \<lparr> availableSlots = [], closed = True \<rparr>)"
  using assms by (simp add: getAvailableTimeSlots_def)

lemma available_open_day:
  assumes "businessHoursConfig s = Some bh" "d \<noteq> []" "getDay z d = Some day"
    "dayHoursOf bh day = Some dh"
    "parseTime (dh_start dh) = Num t_open" "parseTime (dh_end dh) = Num t_close"
  shows "getAvailableTimeSlots z (Some d) barber s
           = Some (Inr \<lparr> availableSlots =
                            filter (\<lambda>t. t \<notin> set (busySlotsOf s d barber))
                              (map (\<lambda>k. formatTime (t_open + 30 * int k))
                                 [0 ..< nat ((t_close - t_open + 29) div 30)]),
                          closed = False \<rparr>)"
  using assms by (simp add: getAvailableTimeSlots_def generateTimeSlots_def slots_from_steps)

text \<open>
  On a host in UTC, Monday 2025-06-09 in \<open>monday_store\<close> for barber 1: the slots 08:00
  to 17:30 without 09:30, the time of the CONFIRMED appointment; the CANCELLED appointment
  at 10:00 takes no slot.
\<close>

lemma monday_store_slots:
  "getAvailableTimeSlots utc_zone (Some ''2025-06-09'') (Some 1) monday_store
     = Some (Inr \<lparr> availableSlots =
           [''08:00'', ''08:30'', ''09:00'', ''10:00'', ''10:30'', ''11:00'',
            ''11:30'', ''12:00'', ''12:30'', ''13:00'', ''13:30'', ''14:00'', ''14:30'',
            ''15:00'', ''15:30'', ''16:00'', ''16:30'', ''17:00'', ''17:30''],
          closed = False \<rparr>)"
  by code_simp

text \<open>
  C7 (the code at the failing input). The business hours are Monday 08:00 to 18:00 and no
  other day, and there is no appointment (\<open>free_monday_store\<close>); the date is Monday
  2025-06-09. On a host in UTC the answer is the 20 slots 08:00 to 17:30. On a host in
  America/Sao_Paulo the answer is the empty sequence, marked closed: \<open>new Date(date)\<close> is
  UTC midnight of the Monday, which is Sunday 21:00 there, and \<open>getDay()\<close> reads the local
  weekday, so the hours looked up are Sunday's. With hours for Sunday 10:00 to 12:00 as
  well (\<open>sunday_store\<close>) the same host answers that Monday with Sunday's four slots.
\<close>

theorem getAvailableTimeSlots_local_weekday:
  "getDay utc_zone ''2025-06-09'' = Some (Some 1) \<and>
   getAvailableTimeSlots utc_zone (Some ''2025-06-09'') None free_monday_store
     = Some (Inr \<lparr> availableSlots =
           [''08:00'', ''08:30'', ''09:00'', ''09:30'', ''10:00'', ''10:30'', ''11:00'',
            ''11:30'', ''12:00'', ''12:30'', ''13:00'', ''13:30'', ''14:00'', ''14:30'',
            ''15:00'', ''15:30'', ''16:00'', ''16:30'', ''17:00'', ''17:30''],
          closed = False \<rparr>) \<and>
   getDay sao_paulo ''2025-06-09'' = Some (Some 0) \<and>
   getAvailableTimeSlots sao_paulo (Some ''2025-06-09'') None free_monday_store
     = Some (Inr \<lparr> availableSlots = [], closed = True \<rparr>) \<and>
   getAvailableTimeSlots sao_paulo (Some ''2025-06-09'') None sunday_store
     = Some (Inr \<lparr> availableSlots = [''10:00'', ''10:30'', ''11:00'', ''11:30''],
                   closed = False \<rparr>)"
  by code_simp

end
